theory Spec2Isabelle
  imports Main "HOL-Library.Word"
begin

unbundle bit_operations_syntax

section \<open>Statuses and hard assertions\<close>

text \<open>
  A \<open>std::string\<close> is a sequence of bytes.
\<close>

type_synonym bytes = "8 word list"

text \<open>
  The conditions of \<open>Status\<close> that this layer produces (the message text is left out).
\<close>

datatype Status = OK | Corruption | InvalidArgument | NotFound

text \<open>
  A function that contains \<open>CHECK\<close> or \<open>CHECK_OK\<close> either aborts the process
  (\<open>CheckFailure\<close>) or returns normally with a value.
\<close>

datatype 'a outcome = CheckFailure | Returned 'a

definition CHECK :: "bool \<Rightarrow> 'a outcome \<Rightarrow> 'a outcome" where
  "CHECK c k = (if c then k else CheckFailure)"

definition CHECK_OK :: "Status \<Rightarrow> 'a outcome \<Rightarrow> 'a outcome" where
  "CHECK_OK s k = (if s = OK then k else CheckFailure)"

section \<open>The value record \<open>YQLValuePB\<close>\<close>

text \<open>
  Modelled from the spec: the generated message class \<open>YQLValuePB\<close> with its tag
  \<open>ValueCase\<close> and its collection messages (yb/common/yql_protocol.pb.h is not in the
  sources), from the data model of section 3 of the specification and from the members
  that yql_value.h calls. \<open>InternalType\<close> is \<open>YQLValuePB::ValueCase\<close>
  (yql_value.h:24), with one case per payload and \<open>VALUE_NOT_SET\<close> for null.
\<close>

datatype InternalType =
    VALUE_NOT_SET
  | kInt8Value | kInt16Value | kInt32Value | kInt64Value
  | kFloatValue | kDoubleValue | kDecimalValue | kBoolValue
  | kStringValue | kTimestampValue | kBinaryValue | kInetaddressValue
  | kMapValue | kSetValue | kListValue | kUuidValue | kTimeuuidValue

text \<open>
  The record: a type tag and at most one active payload; no tag set means null. Integer
  payloads have the widths of section 3 of the specification; \<open>float\<close> and
  \<open>double\<close> payloads are kept as their IEEE-754 bit patterns; decimal, inet address,
  UUID and time-UUID payloads are encoded byte strings; a map is its key sequence and its
  value sequence, a set and a list are their element sequences, and every element is
  itself a record.
\<close>

datatype YQLValuePB =
    PB_not_set
  | PB_int8 "8 word"
  | PB_int16 "16 word"
  | PB_int32 "32 word"
  | PB_int64 "64 word"
  | PB_float "32 word"
  | PB_double "64 word"
  | PB_decimal bytes
  | PB_bool bool
  | PB_string bytes
  | PB_timestamp "64 word"
  | PB_binary bytes
  | PB_inetaddress bytes
  | PB_map "YQLValuePB list" "YQLValuePB list"
  | PB_set "YQLValuePB list"
  | PB_list "YQLValuePB list"
  | PB_uuid bytes
  | PB_timeuuid bytes

text \<open>\<open>YQLMapValuePB\<close> (keys, values) and \<open>YQLSeqValuePB\<close> (elems).\<close>

type_synonym YQLMapValuePB = "YQLValuePB list \<times> YQLValuePB list"
type_synonym YQLSeqValuePB = "YQLValuePB list"

fun value_case :: "YQLValuePB \<Rightarrow> InternalType" where
  "value_case PB_not_set = VALUE_NOT_SET"
| "value_case (PB_int8 _) = kInt8Value"
| "value_case (PB_int16 _) = kInt16Value"
| "value_case (PB_int32 _) = kInt32Value"
| "value_case (PB_int64 _) = kInt64Value"
| "value_case (PB_float _) = kFloatValue"
| "value_case (PB_double _) = kDoubleValue"
| "value_case (PB_decimal _) = kDecimalValue"
| "value_case (PB_bool _) = kBoolValue"
| "value_case (PB_string _) = kStringValue"
| "value_case (PB_timestamp _) = kTimestampValue"
| "value_case (PB_binary _) = kBinaryValue"
| "value_case (PB_inetaddress _) = kInetaddressValue"
| "value_case (PB_map _ _) = kMapValue"
| "value_case (PB_set _) = kSetValue"
| "value_case (PB_list _) = kListValue"
| "value_case (PB_uuid _) = kUuidValue"
| "value_case (PB_timeuuid _) = kTimeuuidValue"

subsection \<open>Generated accessors of the message\<close>

text \<open>
  The members of the generated class that yql_value.h calls. \<open>has_f()\<close> tests the
  tag; the field accessor \<open>f()\<close>, here \<open>pb_f\<close>, returns the payload when the tag
  is \<open>f\<close> and the field's default otherwise.
\<close>

definition has_int8_value :: "YQLValuePB \<Rightarrow> bool" where
  "has_int8_value v = (value_case v = kInt8Value)"
definition has_int16_value :: "YQLValuePB \<Rightarrow> bool" where
  "has_int16_value v = (value_case v = kInt16Value)"
definition has_int32_value :: "YQLValuePB \<Rightarrow> bool" where
  "has_int32_value v = (value_case v = kInt32Value)"
definition has_int64_value :: "YQLValuePB \<Rightarrow> bool" where
  "has_int64_value v = (value_case v = kInt64Value)"
definition has_float_value :: "YQLValuePB \<Rightarrow> bool" where
  "has_float_value v = (value_case v = kFloatValue)"
definition has_double_value :: "YQLValuePB \<Rightarrow> bool" where
  "has_double_value v = (value_case v = kDoubleValue)"
definition has_decimal_value :: "YQLValuePB \<Rightarrow> bool" where
  "has_decimal_value v = (value_case v = kDecimalValue)"
definition has_bool_value :: "YQLValuePB \<Rightarrow> bool" where
  "has_bool_value v = (value_case v = kBoolValue)"
definition has_string_value :: "YQLValuePB \<Rightarrow> bool" where
  "has_string_value v = (value_case v = kStringValue)"
definition has_timestamp_value :: "YQLValuePB \<Rightarrow> bool" where
  "has_timestamp_value v = (value_case v = kTimestampValue)"
definition has_binary_value :: "YQLValuePB \<Rightarrow> bool" where
  "has_binary_value v = (value_case v = kBinaryValue)"
definition has_inetaddress_value :: "YQLValuePB \<Rightarrow> bool" where
  "has_inetaddress_value v = (value_case v = kInetaddressValue)"
definition has_map_value :: "YQLValuePB \<Rightarrow> bool" where
  "has_map_value v = (value_case v = kMapValue)"
definition has_set_value :: "YQLValuePB \<Rightarrow> bool" where
  "has_set_value v = (value_case v = kSetValue)"
definition has_list_value :: "YQLValuePB \<Rightarrow> bool" where
  "has_list_value v = (value_case v = kListValue)"
definition has_uuid_value :: "YQLValuePB \<Rightarrow> bool" where
  "has_uuid_value v = (value_case v = kUuidValue)"
definition has_timeuuid_value :: "YQLValuePB \<Rightarrow> bool" where
  "has_timeuuid_value v = (value_case v = kTimeuuidValue)"

definition pb_int8_value :: "YQLValuePB \<Rightarrow> 8 word" where
  "pb_int8_value v = (case v of PB_int8 x \<Rightarrow> x | _ \<Rightarrow> 0)"
definition pb_int16_value :: "YQLValuePB \<Rightarrow> 16 word" where
  "pb_int16_value v = (case v of PB_int16 x \<Rightarrow> x | _ \<Rightarrow> 0)"
definition pb_int32_value :: "YQLValuePB \<Rightarrow> 32 word" where
  "pb_int32_value v = (case v of PB_int32 x \<Rightarrow> x | _ \<Rightarrow> 0)"
definition pb_int64_value :: "YQLValuePB \<Rightarrow> 64 word" where
  "pb_int64_value v = (case v of PB_int64 x \<Rightarrow> x | _ \<Rightarrow> 0)"
definition pb_float_value :: "YQLValuePB \<Rightarrow> 32 word" where
  "pb_float_value v = (case v of PB_float x \<Rightarrow> x | _ \<Rightarrow> 0)"
definition pb_double_value :: "YQLValuePB \<Rightarrow> 64 word" where
  "pb_double_value v = (case v of PB_double x \<Rightarrow> x | _ \<Rightarrow> 0)"
definition pb_decimal_value :: "YQLValuePB \<Rightarrow> bytes" where
  "pb_decimal_value v = (case v of PB_decimal x \<Rightarrow> x | _ \<Rightarrow> [])"
definition pb_bool_value :: "YQLValuePB \<Rightarrow> bool" where
  "pb_bool_value v = (case v of PB_bool x \<Rightarrow> x | _ \<Rightarrow> False)"
definition pb_string_value :: "YQLValuePB \<Rightarrow> bytes" where
  "pb_string_value v = (case v of PB_string x \<Rightarrow> x | _ \<Rightarrow> [])"
definition pb_timestamp_value :: "YQLValuePB \<Rightarrow> 64 word" where
  "pb_timestamp_value v = (case v of PB_timestamp x \<Rightarrow> x | _ \<Rightarrow> 0)"
definition pb_binary_value :: "YQLValuePB \<Rightarrow> bytes" where
  "pb_binary_value v = (case v of PB_binary x \<Rightarrow> x | _ \<Rightarrow> [])"
definition pb_inetaddress_value :: "YQLValuePB \<Rightarrow> bytes" where
  "pb_inetaddress_value v = (case v of PB_inetaddress x \<Rightarrow> x | _ \<Rightarrow> [])"
definition pb_map_value :: "YQLValuePB \<Rightarrow> YQLMapValuePB" where
  "pb_map_value v = (case v of PB_map ks vs \<Rightarrow> (ks, vs) | _ \<Rightarrow> ([], []))"
definition pb_set_value :: "YQLValuePB \<Rightarrow> YQLSeqValuePB" where
  "pb_set_value v = (case v of PB_set xs \<Rightarrow> xs | _ \<Rightarrow> [])"
definition pb_list_value :: "YQLValuePB \<Rightarrow> YQLSeqValuePB" where
  "pb_list_value v = (case v of PB_list xs \<Rightarrow> xs | _ \<Rightarrow> [])"
definition pb_uuid_value :: "YQLValuePB \<Rightarrow> bytes" where
  "pb_uuid_value v = (case v of PB_uuid x \<Rightarrow> x | _ \<Rightarrow> [])"
definition pb_timeuuid_value :: "YQLValuePB \<Rightarrow> bytes" where
  "pb_timeuuid_value v = (case v of PB_timeuuid x \<Rightarrow> x | _ \<Rightarrow> [])"

text \<open>
  \<open>mutable_map_value()\<close>, \<open>mutable_set_value()\<close>, \<open>mutable_list_value()\<close>: as the
  comment at yql_value.h:270 says, the call sets the tag and allocates the (empty)
  message if the tag was a different one, and leaves a message that is already there
  as it is.
\<close>

definition mutable_map_value :: "YQLValuePB \<Rightarrow> YQLValuePB" where
  "mutable_map_value v = (if has_map_value v then v else PB_map [] [])"

definition mutable_set_value :: "YQLValuePB \<Rightarrow> YQLValuePB" where
  "mutable_set_value v = (if has_set_value v then v else PB_set [])"

definition mutable_list_value :: "YQLValuePB \<Rightarrow> YQLValuePB" where
  "mutable_list_value v = (if has_list_value v then v else PB_list [])"

section \<open>Nullness and comparison operators (yql_value.h:116-127, 372-379)\<close>

definition type :: "YQLValuePB \<Rightarrow> InternalType" where
  "type v = value_case v"

definition IsNull :: "YQLValuePB \<Rightarrow> bool" where
  "IsNull v = (value_case v = VALUE_NOT_SET)"

definition BothNotNull :: "YQLValuePB \<Rightarrow> YQLValuePB \<Rightarrow> bool" where
  "BothNotNull this other = (\<not> IsNull this \<and> \<not> IsNull other)"

definition EitherIsNull :: "YQLValuePB \<Rightarrow> YQLValuePB \<Rightarrow> bool" where
  "EitherIsNull this other = (IsNull this \<or> IsNull other)"

definition Comparable :: "YQLValuePB \<Rightarrow> YQLValuePB \<Rightarrow> bool" where
  "Comparable this other = (type this = type other \<or> EitherIsNull this other)"

text \<open>
  \<open>CompareTo\<close> is only declared in the header, so the operators take it as a parameter
  \<open>cmp\<close>; it may trip a hard assertion. \<open>&&\<close> evaluates its right operand only when
  the left one is true.
\<close>

type_synonym compare_to = "YQLValuePB \<Rightarrow> YQLValuePB \<Rightarrow> int outcome"

definition and_then :: "bool \<Rightarrow> int outcome \<Rightarrow> (int \<Rightarrow> bool) \<Rightarrow> bool outcome" where
  "and_then b c p =
     (if b then (case c of CheckFailure \<Rightarrow> CheckFailure | Returned r \<Rightarrow> Returned (p r))
      else Returned False)"

definition operator_lt :: "compare_to \<Rightarrow> YQLValuePB \<Rightarrow> YQLValuePB \<Rightarrow> bool outcome" where
  "operator_lt cmp this v = and_then (BothNotNull this v) (cmp this v) (\<lambda>r. r < 0)"

definition operator_gt :: "compare_to \<Rightarrow> YQLValuePB \<Rightarrow> YQLValuePB \<Rightarrow> bool outcome" where
  "operator_gt cmp this v = and_then (BothNotNull this v) (cmp this v) (\<lambda>r. r > 0)"

definition operator_le :: "compare_to \<Rightarrow> YQLValuePB \<Rightarrow> YQLValuePB \<Rightarrow> bool outcome" where
  "operator_le cmp this v = and_then (BothNotNull this v) (cmp this v) (\<lambda>r. r \<le> 0)"

definition operator_ge :: "compare_to \<Rightarrow> YQLValuePB \<Rightarrow> YQLValuePB \<Rightarrow> bool outcome" where
  "operator_ge cmp this v = and_then (BothNotNull this v) (cmp this v) (\<lambda>r. r \<ge> 0)"

definition operator_eq :: "compare_to \<Rightarrow> YQLValuePB \<Rightarrow> YQLValuePB \<Rightarrow> bool outcome" where
  "operator_eq cmp this v = and_then (BothNotNull this v) (cmp this v) (\<lambda>r. r = 0)"

definition operator_ne :: "compare_to \<Rightarrow> YQLValuePB \<Rightarrow> YQLValuePB \<Rightarrow> bool outcome" where
  "operator_ne cmp this v = and_then (BothNotNull this v) (cmp this v) (\<lambda>r. r \<noteq> 0)"

section \<open>Assignment (yql_value.h:99-110, 495-500)\<close>

text \<open>
  \<open>Clear\<close>, \<open>MergeFrom\<close>, \<open>CopyFrom\<close> and \<open>Swap\<close> are members of the generated
  message class too. The specification does not describe them; they follow the
  protocol-buffer rules for a message with a \<open>oneof\<close>: \<open>MergeFrom\<close> overwrites a
  scalar payload with the other message's, merges a sub-message into one of the same tag
  (repeated fields are appended) and does nothing when the other message has no payload;
  \<open>CopyFrom\<close> is \<open>Clear\<close> then \<open>MergeFrom\<close>; \<open>Swap\<close> exchanges the contents of
  the two messages.
\<close>

definition Clear :: "YQLValuePB \<Rightarrow> YQLValuePB" where
  "Clear this = PB_not_set"

definition MergeFrom :: "YQLValuePB \<Rightarrow> YQLValuePB \<Rightarrow> YQLValuePB" where
  "MergeFrom this from =
     (case from of
        PB_not_set \<Rightarrow> this
      | PB_map ks vs \<Rightarrow>
          (let (ks0, vs0) = pb_map_value (mutable_map_value this) in PB_map (ks0 @ ks) (vs0 @ vs))
      | PB_set xs \<Rightarrow> PB_set (pb_set_value (mutable_set_value this) @ xs)
      | PB_list xs \<Rightarrow> PB_list (pb_list_value (mutable_list_value this) @ xs)
      | _ \<Rightarrow> from)"

definition CopyFrom :: "YQLValuePB \<Rightarrow> YQLValuePB \<Rightarrow> YQLValuePB" where
  "CopyFrom this from = MergeFrom (Clear this) from"

definition Swap :: "YQLValuePB \<Rightarrow> YQLValuePB \<Rightarrow> YQLValuePB \<times> YQLValuePB" where
  "Swap this other = (other, this)"

text \<open>
  Both assignments return the pair (destination, source) after the call: \<open>Assign\<close>
  takes its source by constant reference, \<open>AssignMove\<close> by rvalue reference.
\<close>

definition Assign :: "YQLValuePB \<Rightarrow> YQLValuePB \<Rightarrow> YQLValuePB \<times> YQLValuePB" where
  "Assign this other = (CopyFrom this other, other)"

definition AssignMove :: "YQLValuePB \<Rightarrow> YQLValuePB \<Rightarrow> YQLValuePB \<times> YQLValuePB" where
  "AssignMove this other = Swap this other"

definition operator_assign :: "YQLValuePB \<Rightarrow> YQLValuePB \<Rightarrow> YQLValuePB \<times> YQLValuePB" where
  "operator_assign this other = Assign this other"

definition operator_assign_move :: "YQLValuePB \<Rightarrow> YQLValuePB \<Rightarrow> YQLValuePB \<times> YQLValuePB" where
  "operator_assign_move this other = AssignMove this other"

section \<open>Collections (yql_value.h:270-288)\<close>

text \<open>
  \<open>add_keys()\<close>, \<open>add_values()\<close> and \<open>add_elems()\<close> of the generated collection
  messages append a fresh (null) record and return a pointer to it; the pointer is
  modelled by the index of the new element.
\<close>

definition add_keys :: "YQLMapValuePB \<Rightarrow> YQLMapValuePB \<times> nat" where
  "add_keys m = ((fst m @ [PB_not_set], snd m), length (fst m))"

definition add_values :: "YQLMapValuePB \<Rightarrow> YQLMapValuePB \<times> nat" where
  "add_values m = ((fst m, snd m @ [PB_not_set]), length (snd m))"

definition add_elems :: "YQLSeqValuePB \<Rightarrow> YQLSeqValuePB \<times> nat" where
  "add_elems xs = (xs @ [PB_not_set], length xs)"

definition set_map_value :: "YQLValuePB \<Rightarrow> YQLValuePB" where
  "set_map_value v = mutable_map_value v"

definition set_set_value :: "YQLValuePB \<Rightarrow> YQLValuePB" where
  "set_set_value v = mutable_set_value v"

definition set_list_value :: "YQLValuePB \<Rightarrow> YQLValuePB" where
  "set_list_value v = mutable_list_value v"

definition add_map_key :: "YQLValuePB \<Rightarrow> YQLValuePB \<times> nat" where
  "add_map_key v =
     (let (m, i) = add_keys (pb_map_value (mutable_map_value v)) in (PB_map (fst m) (snd m), i))"

definition add_map_value :: "YQLValuePB \<Rightarrow> YQLValuePB \<times> nat" where
  "add_map_value v =
     (let (m, i) = add_values (pb_map_value (mutable_map_value v)) in (PB_map (fst m) (snd m), i))"

definition add_set_elem :: "YQLValuePB \<Rightarrow> YQLValuePB \<times> nat" where
  "add_set_elem v =
     (let (xs, i) = add_elems (pb_set_value (mutable_set_value v)) in (PB_set xs, i))"

definition add_list_elem :: "YQLValuePB \<Rightarrow> YQLValuePB \<times> nat" where
  "add_list_elem v =
     (let (xs, i) = add_elems (pb_list_value (mutable_list_value v)) in (PB_list xs, i))"

text \<open>
  The caller populates the element through the returned pointer: \<open>store_map_key i x\<close>
  is the write \<open>*p = x\<close> for the pointer \<open>p\<close> to key \<open>i\<close>, and likewise for a
  value. A pointer to an element that does not exist is never handed out, so the write
  has no effect there.
\<close>

definition store_map_key :: "nat \<Rightarrow> YQLValuePB \<Rightarrow> YQLValuePB \<Rightarrow> YQLValuePB" where
  "store_map_key i x v =
     (case v of PB_map ks vs \<Rightarrow> if i < length ks then PB_map (ks[i := x]) vs else v | _ \<Rightarrow> v)"

definition store_map_value :: "nat \<Rightarrow> YQLValuePB \<Rightarrow> YQLValuePB \<Rightarrow> YQLValuePB" where
  "store_map_value i x v =
     (case v of PB_map ks vs \<Rightarrow> if i < length vs then PB_map ks (vs[i := x]) else v | _ \<Rightarrow> v)"

text \<open>
  One paired call: \<open>add_map_key()\<close> populated with \<open>k\<close>, then \<open>add_map_value()\<close>
  populated with \<open>x\<close>; and a sequence of paired calls.
\<close>

definition add_map_entry :: "YQLValuePB \<Rightarrow> YQLValuePB \<Rightarrow> YQLValuePB \<Rightarrow> YQLValuePB" where
  "add_map_entry k x v =
     (let (v1, i) = add_map_key v;
          v2 = store_map_key i k v1;
          (v3, j) = add_map_value v2
      in store_map_value j x v3)"

fun add_map_entries :: "(YQLValuePB \<times> YQLValuePB) list \<Rightarrow> YQLValuePB \<Rightarrow> YQLValuePB" where
  "add_map_entries [] v = v"
| "add_map_entries ((k, x) # ps) v = add_map_entries ps (add_map_entry k x v)"

section \<open>Rich values behind the byte-string payloads\<close>

text \<open>
  Big-endian (network order) bytes of a number: \<open>be_encode n x\<close> is \<open>x\<close> in \<open>n\<close>
  bytes, most significant first; \<open>be_decode\<close> reads such a sequence.
\<close>

fun be_encode :: "nat \<Rightarrow> nat \<Rightarrow> bytes" where
  "be_encode 0 x = []"
| "be_encode (Suc n) x = be_encode n (x div 256) @ [of_nat (x mod 256)]"

definition be_decode :: "bytes \<Rightarrow> nat" where
  "be_decode bs = foldl (\<lambda>acc b. acc * 256 + unat b) 0 bs"

text \<open>
  Modelled from the spec: class \<open>Uuid\<close> (yb/util/uuid.h is not in the sources). A UUID
  is a 128-bit value, stored as its 16 bytes in network order. Its version field is the
  high half of byte 6 (bits 76 to 79), and version 1 is the time-based one.
  \<open>IsTimeUuid\<close> fails with \<open>InvalidArgument\<close> when the version field does not indicate
  a time-based UUID; \<open>FromBytes\<close> fails with \<open>InvalidArgument\<close> on malformed bytes
  (not 16 of them) and leaves the default (nil) UUID; \<open>ToBytes\<close> gives the 16 bytes.
\<close>

type_synonym Uuid = "128 word"

definition version :: "Uuid \<Rightarrow> nat" where
  "version u = unat (drop_bit 76 u AND 15)"

definition IsTimeUuid :: "Uuid \<Rightarrow> Status" where
  "IsTimeUuid u = (if version u = 1 then OK else InvalidArgument)"

definition Uuid_ToBytes :: "Uuid \<Rightarrow> Status \<times> bytes" where
  "Uuid_ToBytes u = (OK, be_encode 16 (unat u))"

definition Uuid_FromBytes :: "bytes \<Rightarrow> Status \<times> Uuid" where
  "Uuid_FromBytes bs =
     (if length bs = 16 then (OK, of_nat (be_decode bs)) else (InvalidArgument, 0))"

text \<open>
  Modelled from the spec: class \<open>InetAddress\<close> (yb/util/net/inetaddress.h is not in the
  sources). An address is stored as 4 bytes (IPv4) or 16 bytes (IPv6); \<open>FromBytes\<close>
  fails with \<open>InvalidArgument\<close> on malformed address bytes and leaves the default
  address.
\<close>

datatype InetAddress = IPv4 "32 word" | IPv6 "128 word"

definition InetAddress_FromBytes :: "bytes \<Rightarrow> Status \<times> InetAddress" where
  "InetAddress_FromBytes bs =
     (if length bs = 4 then (OK, IPv4 (of_nat (be_decode bs)))
      else if length bs = 16 then (OK, IPv6 (of_nat (be_decode bs)))
      else (InvalidArgument, IPv4 0))"

text \<open>\<open>Timestamp\<close> wraps a signed 64-bit count (yb/util/timestamp.h).\<close>

datatype Timestamp = Timestamp "64 word"

section \<open>Typed getters (yql_value.h:158-217)\<close>

text \<open>
  \<open>YQL_GET_VALUE(v, type, field)\<close> is \<open>CHECK(v.has_field()); return
  static_cast<type>(v.field())\<close>; the cast is the identity on a payload of that width.
\<close>

definition int8_value :: "YQLValuePB \<Rightarrow> 8 word outcome" where
  "int8_value v = CHECK (has_int8_value v) (Returned (pb_int8_value v))"

definition int16_value :: "YQLValuePB \<Rightarrow> 16 word outcome" where
  "int16_value v = CHECK (has_int16_value v) (Returned (pb_int16_value v))"

definition int32_value :: "YQLValuePB \<Rightarrow> 32 word outcome" where
  "int32_value v = CHECK (has_int32_value v) (Returned (pb_int32_value v))"

definition int64_value :: "YQLValuePB \<Rightarrow> 64 word outcome" where
  "int64_value v = CHECK (has_int64_value v) (Returned (pb_int64_value v))"

definition float_value :: "YQLValuePB \<Rightarrow> 32 word outcome" where
  "float_value v = CHECK (has_float_value v) (Returned (pb_float_value v))"

definition double_value :: "YQLValuePB \<Rightarrow> 64 word outcome" where
  "double_value v = CHECK (has_double_value v) (Returned (pb_double_value v))"

definition decimal_value :: "YQLValuePB \<Rightarrow> bytes outcome" where
  "decimal_value v = CHECK (has_decimal_value v) (Returned (pb_decimal_value v))"

definition bool_value :: "YQLValuePB \<Rightarrow> bool outcome" where
  "bool_value v = CHECK (has_bool_value v) (Returned (pb_bool_value v))"

definition string_value :: "YQLValuePB \<Rightarrow> bytes outcome" where
  "string_value v = CHECK (has_string_value v) (Returned (pb_string_value v))"

definition timestamp_value :: "YQLValuePB \<Rightarrow> Timestamp outcome" where
  "timestamp_value v = CHECK (has_timestamp_value v) (Returned (Timestamp (pb_timestamp_value v)))"

definition binary_value :: "YQLValuePB \<Rightarrow> bytes outcome" where
  "binary_value v = CHECK (has_binary_value v) (Returned (pb_binary_value v))"

definition map_value :: "YQLValuePB \<Rightarrow> YQLMapValuePB outcome" where
  "map_value v = CHECK (has_map_value v) (Returned (pb_map_value v))"

definition set_value :: "YQLValuePB \<Rightarrow> YQLSeqValuePB outcome" where
  "set_value v = CHECK (has_set_value v) (Returned (pb_set_value v))"

definition list_value :: "YQLValuePB \<Rightarrow> YQLSeqValuePB outcome" where
  "list_value v = CHECK (has_list_value v) (Returned (pb_list_value v))"

definition inetaddress_value :: "YQLValuePB \<Rightarrow> InetAddress outcome" where
  "inetaddress_value v =
     CHECK (has_inetaddress_value v)
       (let (s, addr) = InetAddress_FromBytes (pb_inetaddress_value v)
        in CHECK_OK s (Returned addr))"

definition uuid_value :: "YQLValuePB \<Rightarrow> Uuid outcome" where
  "uuid_value v =
     CHECK (has_uuid_value v)
       (let (s, uuid) = Uuid_FromBytes (pb_uuid_value v)
        in CHECK_OK s (Returned uuid))"

definition timeuuid_value :: "YQLValuePB \<Rightarrow> Uuid outcome" where
  "timeuuid_value v =
     CHECK (has_timeuuid_value v)
       (let (s, timeuuid) = Uuid_FromBytes (pb_timeuuid_value v)
        in CHECK_OK s (CHECK_OK (IsTimeUuid timeuuid) (Returned timeuuid)))"

section \<open>The time-UUID setter (yql_value.h:257-262)\<close>

text \<open>The generated setter \<open>set_timeuuid_value(bytes)\<close> replaces tag and payload.\<close>

definition pb_set_timeuuid_value :: "bytes \<Rightarrow> YQLValuePB \<Rightarrow> YQLValuePB" where
  "pb_set_timeuuid_value bs v = PB_timeuuid bs"

definition set_timeuuid_value :: "Uuid \<Rightarrow> YQLValuePB \<Rightarrow> YQLValuePB outcome" where
  "set_timeuuid_value val v =
     CHECK_OK (IsTimeUuid val)
       (let (s, bs) = Uuid_ToBytes val
        in CHECK_OK s (Returned (pb_set_timeuuid_value bs v)))"

section \<open>\<open>YQLVirtualTable::SetColumnValue\<close> (yql_virtual_table.h:92-101)\<close>

text \<open>
  Modelled from the spec: \<open>Schema\<close> (yb/common/schema.h is not in the sources). A
  schema is the sequence of its columns, each a name and a data type; \<open>find_column\<close>
  looks a column up by name and returns its index, or \<open>kColumnNotFound\<close> when the name
  is absent; \<open>column\<close> is the column at an index.
\<close>

type_synonym 'dt Schema = "(string \<times> 'dt) list"

definition kColumnNotFound :: int where
  "kColumnNotFound = -1"

fun find_column :: "'dt Schema \<Rightarrow> string \<Rightarrow> int" where
  "find_column [] col_name = kColumnNotFound"
| "find_column (c # cs) col_name =
     (if fst c = col_name then 0
      else (let r = find_column cs col_name
            in if r = kColumnNotFound then kColumnNotFound else r + 1))"

definition column :: "'dt Schema \<Rightarrow> int \<Rightarrow> string \<times> 'dt" where
  "column schema i = schema ! nat i"

text \<open>
  \<open>QLRow\<close> (yb/common/ql_rowblock.h) and \<open>util::GetValue\<close>
  (yb/master/util/yql_vtable_helpers.h) are not in the sources, so they are parameters:
  a row is of any type \<open>'row\<close>, \<open>assign_column row i x\<close> is the row after the
  assignment \<open>*(row->mutable_column(i)) = x\<close>, and \<open>GetValue\<close> builds the cell value
  from the typed value and the column's data type. The function has no check of its
  own on the row. The result is the returned status and the row after the call.
\<close>

definition SetColumnValue ::
  "('t \<Rightarrow> 'dt \<Rightarrow> 'qv) \<Rightarrow> ('row \<Rightarrow> int \<Rightarrow> 'qv \<Rightarrow> 'row) \<Rightarrow> 'dt Schema \<Rightarrow> string \<Rightarrow> 't \<Rightarrow> 'row \<Rightarrow>
     Status \<times> 'row" where
  "SetColumnValue GetValue assign_column schema col_name val row =
     (let column_index = find_column schema col_name in
      if column_index = kColumnNotFound then (NotFound, row)
      else
        (let data_type = snd (column schema column_index)
         in (OK, assign_column row column_index (GetValue val data_type))))"

section \<open>The wire codec (yql_value.h:130-135, 319-345)\<close>

text \<open>
  Sequencing of calls that may trip a hard assertion.
\<close>

definition then_do :: "'a outcome \<Rightarrow> ('a \<Rightarrow> 'b outcome) \<Rightarrow> 'b outcome" where
  "then_do m f = (case m of CheckFailure \<Rightarrow> CheckFailure | Returned x \<Rightarrow> f x)"

text \<open>
  Modelled from the spec: \<open>YQLValue::SetNull\<close> (declared at yql_value.h:153, its body
  is not in the sources) clears the tag and releases any payload.
\<close>

definition SetNull :: "YQLValuePB \<Rightarrow> YQLValuePB" where
  "SetNull v = Clear v"

text \<open>
  The scalar setters of yql_value.h:223-268 call the generated setter, which replaces
  tag and payload.
\<close>

definition set_int8_value :: "8 word \<Rightarrow> YQLValuePB \<Rightarrow> YQLValuePB" where
  "set_int8_value val v = PB_int8 val"

definition set_int16_value :: "16 word \<Rightarrow> YQLValuePB \<Rightarrow> YQLValuePB" where
  "set_int16_value val v = PB_int16 val"

definition set_int32_value :: "32 word \<Rightarrow> YQLValuePB \<Rightarrow> YQLValuePB" where
  "set_int32_value val v = PB_int32 val"

definition set_int64_value :: "64 word \<Rightarrow> YQLValuePB \<Rightarrow> YQLValuePB" where
  "set_int64_value val v = PB_int64 val"

definition set_float_value :: "32 word \<Rightarrow> YQLValuePB \<Rightarrow> YQLValuePB" where
  "set_float_value val v = PB_float val"

definition set_double_value :: "64 word \<Rightarrow> YQLValuePB \<Rightarrow> YQLValuePB" where
  "set_double_value val v = PB_double val"

definition set_decimal_value :: "bytes \<Rightarrow> YQLValuePB \<Rightarrow> YQLValuePB" where
  "set_decimal_value val v = PB_decimal val"

definition set_bool_value :: "bool \<Rightarrow> YQLValuePB \<Rightarrow> YQLValuePB" where
  "set_bool_value val v = PB_bool val"

definition set_string_value :: "bytes \<Rightarrow> YQLValuePB \<Rightarrow> YQLValuePB" where
  "set_string_value val v = PB_string val"

definition set_timestamp_value :: "64 word \<Rightarrow> YQLValuePB \<Rightarrow> YQLValuePB" where
  "set_timestamp_value val v = PB_timestamp val"

definition set_binary_value :: "bytes \<Rightarrow> YQLValuePB \<Rightarrow> YQLValuePB" where
  "set_binary_value val v = PB_binary val"

definition pb_set_inetaddress_value :: "bytes \<Rightarrow> YQLValuePB \<Rightarrow> YQLValuePB" where
  "pb_set_inetaddress_value bs v = PB_inetaddress bs"

definition pb_set_uuid_value :: "bytes \<Rightarrow> YQLValuePB \<Rightarrow> YQLValuePB" where
  "pb_set_uuid_value bs v = PB_uuid bs"

text \<open>
  Modelled from the spec: the logical type \<open>YQLType\<close> (yb/common/yql_type.h is not in
  the sources): one of the enumerated type tags, with the declared element type of a set
  or a list and the declared key and value types of a map.
\<close>

datatype YQLType =
    INT8 | INT16 | INT32 | INT64 | FLOAT | DOUBLE | DECIMAL | BOOL | STRING | BINARY
  | TIMESTAMP | INET | UUID | TIMEUUID
  | MAP YQLType YQLType | SET YQLType | LIST YQLType

text \<open>
  Modelled from the spec: the byte-order converters and the number decoder
  \<open>CQLDecodeNum\<close> that \<open>CQLDeserializeNum\<close> calls (neither is in the sources).
  A converter reads a number in network byte order from the start of the input.
  \<open>CQLDecodeNum\<close>, given a byte length and a converter, reads exactly that many bytes,
  converts them, casts the result to the target type and advances the cursor; it fails
  with \<open>Corruption\<close>, reading nothing, if fewer bytes remain than declared. The result
  is the status, the number and the cursor after the call.
\<close>

definition Load8 :: "bytes \<Rightarrow> 8 word" where
  "Load8 p = of_nat (be_decode (take 1 p))"

definition Load16 :: "bytes \<Rightarrow> 16 word" where
  "Load16 p = of_nat (be_decode (take 2 p))"

definition Load32 :: "bytes \<Rightarrow> 32 word" where
  "Load32 p = of_nat (be_decode (take 4 p))"

definition Load64 :: "bytes \<Rightarrow> 64 word" where
  "Load64 p = of_nat (be_decode (take 8 p))"

definition CQLDecodeNum ::
  "nat \<Rightarrow> (bytes \<Rightarrow> 'd::len word) \<Rightarrow> bytes \<Rightarrow> Status \<times> 'n::len word \<times> bytes" where
  "CQLDecodeNum len converter data =
     (if length data < len then (Corruption, 0, data)
      else (OK, ucast (converter (take len data)), drop len data))"

text \<open>
  \<open>CQLDeserializeNum\<close> (yql_value.h:323-331): \<open>RETURN_NOT_OK\<close> returns the decoder's
  status without calling the setter; otherwise the setter stores the number. The result
  is the status, the record and the cursor after the call.
\<close>

definition CQLDeserializeNum ::
  "nat \<Rightarrow> (bytes \<Rightarrow> 'd::len word) \<Rightarrow> ('n::len word \<Rightarrow> YQLValuePB \<Rightarrow> YQLValuePB) \<Rightarrow>
     YQLValuePB \<Rightarrow> bytes \<Rightarrow> Status \<times> YQLValuePB \<times> bytes" where
  "CQLDeserializeNum len converter setter this data =
     (case CQLDecodeNum len converter data of
        (s, val, data') \<Rightarrow> if s \<noteq> OK then (s, this, data') else (OK, setter val this, data'))"

text \<open>
  \<open>CQLDeserializeFloat\<close> (yql_value.h:337-345) has the same shape; a float or double is
  kept as its IEEE-754 bit pattern, so its decoder \<open>CQLDecodeFloat\<close> (not in the
  sources either) is the number decoder on that pattern.
\<close>

definition CQLDeserializeFloat ::
  "nat \<Rightarrow> (bytes \<Rightarrow> 'd::len word) \<Rightarrow> ('n::len word \<Rightarrow> YQLValuePB \<Rightarrow> YQLValuePB) \<Rightarrow>
     YQLValuePB \<Rightarrow> bytes \<Rightarrow> Status \<times> YQLValuePB \<times> bytes" where
  "CQLDeserializeFloat len converter setter this data =
     (case CQLDecodeNum len converter data of
        (s, val, data') \<Rightarrow> if s \<noteq> OK then (s, this, data') else (OK, setter val this, data'))"

text \<open>
  Modelled from the spec: \<open>YQLValue::Serialize\<close> and \<open>YQLValue::Deserialize\<close>, which
  the header only declares (yb/common/yql_value.cc is not in the sources), from the
  encoding rules of section 4.3 of the specification. All fixed-width numbers are in
  network byte order.
  \<^item> Integers, the bit patterns of floats and doubles, and timestamps are written at
    their natural width; a boolean is a single byte 0 or 1 (a non-zero byte reads as
    true); a UUID or time-UUID is its 16 bytes. These have no length prefix, and a null
    of such a type is never serialized: the typed getter's hard assertion trips.
    Decoding a time-UUID whose version is not time-based fails with \<open>Corruption\<close>.
  \<^item> Text, binary, decimal and inet address values are a 4-byte signed length prefix
    followed by that many bytes; an address has 4 or 16 bytes.
  \<^item> A collection is a 4-byte element count (pair count for a map, whose pairs are its
    keys and values paired by index) followed by each element, a map's pairs as key
    then value; each element is a 4-byte length prefix
    followed by the element encoded per its logical element type, and the cursor moves
    past the declared length.
  \<^item> A null of a type with a length prefix, and a null element, is the prefix -1 and
    no payload; a negative prefix decodes to \<open>SetNull()\<close> without reading further.
  \<^item> The client protocol does not change the byte layout.
  \<^item> Decoding fails with \<open>Corruption\<close> when a declared length exceeds the remaining
    input; the record is then left as it was.
\<close>

definition CQLEncodeLength :: "int \<Rightarrow> bytes" where
  "CQLEncodeLength n = be_encode 4 (nat (n mod 2 ^ 32))"

definition CQLEncodeBytes :: "bytes \<Rightarrow> bytes" where
  "CQLEncodeBytes bs = CQLEncodeLength (int (length bs)) @ bs"

definition CQLDecodeLength :: "bytes \<Rightarrow> Status \<times> int \<times> bytes" where
  "CQLDecodeLength data =
     (case CQLDecodeNum 4 Load32 data of
        (s, (len :: 32 word), data') \<Rightarrow> (s, sint len, data'))"

definition InetAddress_ToBytes :: "InetAddress \<Rightarrow> Status \<times> bytes" where
  "InetAddress_ToBytes a =
     (case a of IPv4 w \<Rightarrow> (OK, be_encode 4 (unat w)) | IPv6 w \<Rightarrow> (OK, be_encode 16 (unat w)))"

definition SerializeNullable ::
  "YQLValuePB \<Rightarrow> bytes \<Rightarrow> bytes outcome \<Rightarrow> bytes outcome" where
  "SerializeNullable this buffer payload =
     (if IsNull this then Returned (buffer @ CQLEncodeLength (- 1))
      else then_do payload (\<lambda>bs. Returned (buffer @ bs)))"

definition encode_elem :: "(YQLValuePB \<Rightarrow> bytes \<Rightarrow> bytes outcome) \<Rightarrow> YQLValuePB \<Rightarrow> bytes outcome" where
  "encode_elem ser x =
     (if IsNull x then Returned (CQLEncodeLength (- 1))
      else then_do (ser x []) (\<lambda>bs. Returned (CQLEncodeBytes bs)))"

fun encode_elems :: "(YQLValuePB \<Rightarrow> bytes \<Rightarrow> bytes outcome) \<Rightarrow> YQLValuePB list \<Rightarrow> bytes outcome" where
  "encode_elems ser [] = Returned []"
| "encode_elems ser (x # xs) =
     then_do (encode_elem ser x) (\<lambda>b. then_do (encode_elems ser xs) (\<lambda>bs. Returned (b @ bs)))"

fun encode_pairs ::
  "(YQLValuePB \<Rightarrow> bytes \<Rightarrow> bytes outcome) \<Rightarrow> (YQLValuePB \<Rightarrow> bytes \<Rightarrow> bytes outcome) \<Rightarrow>
     (YQLValuePB \<times> YQLValuePB) list \<Rightarrow> bytes outcome" where
  "encode_pairs serk serv [] = Returned []"
| "encode_pairs serk serv ((k, x) # ps) =
     then_do (encode_elem serk k) (\<lambda>a. then_do (encode_elem serv x) (\<lambda>b.
       then_do (encode_pairs serk serv ps) (\<lambda>bs. Returned (a @ b @ bs))))"

definition SerializeSeq ::
  "(YQLValuePB \<Rightarrow> bytes \<Rightarrow> bytes outcome) \<Rightarrow> YQLSeqValuePB \<Rightarrow> bytes outcome" where
  "SerializeSeq ser xs =
     then_do (encode_elems ser xs) (\<lambda>bs. Returned (CQLEncodeLength (int (length xs)) @ bs))"

definition SerializeMap ::
  "(YQLValuePB \<Rightarrow> bytes \<Rightarrow> bytes outcome) \<Rightarrow> (YQLValuePB \<Rightarrow> bytes \<Rightarrow> bytes outcome) \<Rightarrow>
     YQLMapValuePB \<Rightarrow> bytes outcome" where
  "SerializeMap serk serv m =
     (let pairs = zip (fst m) (snd m)
      in then_do (encode_pairs serk serv pairs)
           (\<lambda>bs. Returned (CQLEncodeLength (int (length pairs)) @ bs)))"

text \<open>
  Modelled from the spec: \<open>YQLValue::Serialize\<close> (declared at yql_value.h:130-132, its
  body is not in the sources), by the encoding rules above. The arguments are the logical
  type, the client protocol, the record and the output buffer; the result is the buffer
  after the call.
\<close>

primrec Serialize :: "YQLType \<Rightarrow> 'c \<Rightarrow> YQLValuePB \<Rightarrow> bytes \<Rightarrow> bytes outcome" where
  "Serialize INT8 = (\<lambda>client this buffer.
     then_do (int8_value this) (\<lambda>x. Returned (buffer @ be_encode 1 (unat x))))"
| "Serialize INT16 = (\<lambda>client this buffer.
     then_do (int16_value this) (\<lambda>x. Returned (buffer @ be_encode 2 (unat x))))"
| "Serialize INT32 = (\<lambda>client this buffer.
     then_do (int32_value this) (\<lambda>x. Returned (buffer @ be_encode 4 (unat x))))"
| "Serialize INT64 = (\<lambda>client this buffer.
     then_do (int64_value this) (\<lambda>x. Returned (buffer @ be_encode 8 (unat x))))"
| "Serialize FLOAT = (\<lambda>client this buffer.
     then_do (float_value this) (\<lambda>x. Returned (buffer @ be_encode 4 (unat x))))"
| "Serialize DOUBLE = (\<lambda>client this buffer.
     then_do (double_value this) (\<lambda>x. Returned (buffer @ be_encode 8 (unat x))))"
| "Serialize DECIMAL = (\<lambda>client this buffer.
     SerializeNullable this buffer
       (then_do (decimal_value this) (\<lambda>bs. Returned (CQLEncodeBytes bs))))"
| "Serialize BOOL = (\<lambda>client this buffer.
     then_do (bool_value this) (\<lambda>b. Returned (buffer @ [if b then 1 else 0])))"
| "Serialize STRING = (\<lambda>client this buffer.
     SerializeNullable this buffer
       (then_do (string_value this) (\<lambda>bs. Returned (CQLEncodeBytes bs))))"
| "Serialize BINARY = (\<lambda>client this buffer.
     SerializeNullable this buffer
       (then_do (binary_value this) (\<lambda>bs. Returned (CQLEncodeBytes bs))))"
| "Serialize TIMESTAMP = (\<lambda>client this buffer.
     then_do (timestamp_value this)
       (\<lambda>t. case t of Timestamp x \<Rightarrow> Returned (buffer @ be_encode 8 (unat x))))"
| "Serialize INET = (\<lambda>client this buffer.
     SerializeNullable this buffer
       (then_do (inetaddress_value this)
          (\<lambda>a. Returned (CQLEncodeBytes (snd (InetAddress_ToBytes a))))))"
| "Serialize UUID = (\<lambda>client this buffer.
     then_do (uuid_value this) (\<lambda>u. Returned (buffer @ snd (Uuid_ToBytes u))))"
| "Serialize TIMEUUID = (\<lambda>client this buffer.
     then_do (timeuuid_value this) (\<lambda>u. Returned (buffer @ snd (Uuid_ToBytes u))))"
| "Serialize (MAP kt vt) = (\<lambda>client this buffer.
     SerializeNullable this buffer
       (then_do (map_value this) (SerializeMap (Serialize kt client) (Serialize vt client))))"
| "Serialize (SET et) = (\<lambda>client this buffer.
     SerializeNullable this buffer
       (then_do (set_value this) (SerializeSeq (Serialize et client))))"
| "Serialize (LIST et) = (\<lambda>client this buffer.
     SerializeNullable this buffer
       (then_do (list_value this) (SerializeSeq (Serialize et client))))"

definition DeserializeBytes ::
  "(bytes \<Rightarrow> bool) \<Rightarrow> (bytes \<Rightarrow> YQLValuePB \<Rightarrow> YQLValuePB) \<Rightarrow> YQLValuePB \<Rightarrow> bytes \<Rightarrow>
     Status \<times> YQLValuePB \<times> bytes" where
  "DeserializeBytes valid setter this data =
     (case CQLDecodeLength data of
        (s, len, data1) \<Rightarrow>
          if s \<noteq> OK then (s, this, data1)
          else if len < 0 then (OK, SetNull this, data1)
          else if length data1 < nat len then (Corruption, this, data1)
          else if \<not> valid (take (nat len) data1) then (Corruption, this, data1)
          else (OK, setter (take (nat len) data1) this, drop (nat len) data1))"

definition DeserializeFixedBytes ::
  "nat \<Rightarrow> (bytes \<Rightarrow> bool) \<Rightarrow> (bytes \<Rightarrow> YQLValuePB \<Rightarrow> YQLValuePB) \<Rightarrow> YQLValuePB \<Rightarrow> bytes \<Rightarrow>
     Status \<times> YQLValuePB \<times> bytes" where
  "DeserializeFixedBytes len valid setter this data =
     (if length data < len then (Corruption, this, data)
      else if \<not> valid (take len data) then (Corruption, this, data)
      else (OK, setter (take len data) this, drop len data))"

definition decode_elem ::
  "(YQLValuePB \<Rightarrow> bytes \<Rightarrow> Status \<times> YQLValuePB \<times> bytes) \<Rightarrow> bytes \<Rightarrow>
     Status \<times> YQLValuePB \<times> bytes" where
  "decode_elem des data =
     (case CQLDecodeLength data of
        (s, len, data1) \<Rightarrow>
          if s \<noteq> OK then (s, PB_not_set, data1)
          else if len < 0 then (OK, PB_not_set, data1)
          else if length data1 < nat len then (Corruption, PB_not_set, data1)
          else
            (case des PB_not_set (take (nat len) data1) of
               (s', x, unread) \<Rightarrow>
                 if s' \<noteq> OK then (s', x, data1) else (OK, x, drop (nat len) data1)))"

fun decode_elems ::
  "(bytes \<Rightarrow> Status \<times> YQLValuePB \<times> bytes) \<Rightarrow> nat \<Rightarrow> bytes \<Rightarrow>
     Status \<times> YQLValuePB list \<times> bytes" where
  "decode_elems dec 0 data = (OK, [], data)"
| "decode_elems dec (Suc n) data =
     (case dec data of
        (s, x, data1) \<Rightarrow>
          if s \<noteq> OK then (s, [], data1)
          else
            (case decode_elems dec n data1 of
               (s', xs, data2) \<Rightarrow> if s' \<noteq> OK then (s', [], data2) else (OK, x # xs, data2)))"

fun decode_pairs ::
  "(bytes \<Rightarrow> Status \<times> YQLValuePB \<times> bytes) \<Rightarrow> (bytes \<Rightarrow> Status \<times> YQLValuePB \<times> bytes) \<Rightarrow>
     nat \<Rightarrow> bytes \<Rightarrow> Status \<times> YQLMapValuePB \<times> bytes" where
  "decode_pairs deck decv 0 data = (OK, ([], []), data)"
| "decode_pairs deck decv (Suc n) data =
     (case deck data of
        (s, k, data1) \<Rightarrow>
          if s \<noteq> OK then (s, ([], []), data1)
          else
            (case decv data1 of
               (s', x, data2) \<Rightarrow>
                 if s' \<noteq> OK then (s', ([], []), data2)
                 else
                   (case decode_pairs deck decv n data2 of
                      (s'', m, data3) \<Rightarrow>
                        if s'' \<noteq> OK then (s'', ([], []), data3)
                        else (OK, (k # fst m, x # snd m), data3))))"

definition DeserializeSeq ::
  "(YQLSeqValuePB \<Rightarrow> YQLValuePB) \<Rightarrow> (YQLValuePB \<Rightarrow> bytes \<Rightarrow> Status \<times> YQLValuePB \<times> bytes) \<Rightarrow>
     YQLValuePB \<Rightarrow> bytes \<Rightarrow> Status \<times> YQLValuePB \<times> bytes" where
  "DeserializeSeq mk des this data =
     (case CQLDecodeLength data of
        (s, n, data1) \<Rightarrow>
          if s \<noteq> OK then (s, this, data1)
          else if n < 0 then (OK, SetNull this, data1)
          else
            (case decode_elems (decode_elem des) (nat n) data1 of
               (s', xs, data2) \<Rightarrow> if s' \<noteq> OK then (s', this, data2) else (OK, mk xs, data2)))"

definition DeserializeMap ::
  "(YQLValuePB \<Rightarrow> bytes \<Rightarrow> Status \<times> YQLValuePB \<times> bytes) \<Rightarrow>
   (YQLValuePB \<Rightarrow> bytes \<Rightarrow> Status \<times> YQLValuePB \<times> bytes) \<Rightarrow>
     YQLValuePB \<Rightarrow> bytes \<Rightarrow> Status \<times> YQLValuePB \<times> bytes" where
  "DeserializeMap desk desv this data =
     (case CQLDecodeLength data of
        (s, n, data1) \<Rightarrow>
          if s \<noteq> OK then (s, this, data1)
          else if n < 0 then (OK, SetNull this, data1)
          else
            (case decode_pairs (decode_elem desk) (decode_elem desv) (nat n) data1 of
               (s', m, data2) \<Rightarrow>
                 if s' \<noteq> OK then (s', this, data2) else (OK, PB_map (fst m) (snd m), data2)))"

text \<open>
  Modelled from the spec: \<open>YQLValue::Deserialize\<close> (declared at yql_value.h:133-135,
  its body is not in the sources), by the encoding rules above. The arguments are the
  logical type, the client protocol, the target record and the input cursor; the result
  is the status, the record and the cursor after the call.
\<close>

primrec Deserialize ::
  "YQLType \<Rightarrow> 'c \<Rightarrow> YQLValuePB \<Rightarrow> bytes \<Rightarrow> Status \<times> YQLValuePB \<times> bytes" where
  "Deserialize INT8 = (\<lambda>client. CQLDeserializeNum 1 Load8 set_int8_value)"
| "Deserialize INT16 = (\<lambda>client. CQLDeserializeNum 2 Load16 set_int16_value)"
| "Deserialize INT32 = (\<lambda>client. CQLDeserializeNum 4 Load32 set_int32_value)"
| "Deserialize INT64 = (\<lambda>client. CQLDeserializeNum 8 Load64 set_int64_value)"
| "Deserialize FLOAT = (\<lambda>client. CQLDeserializeFloat 4 Load32 set_float_value)"
| "Deserialize DOUBLE = (\<lambda>client. CQLDeserializeFloat 8 Load64 set_double_value)"
| "Deserialize DECIMAL = (\<lambda>client. DeserializeBytes (\<lambda>bs. True) set_decimal_value)"
| "Deserialize BOOL = (\<lambda>client.
     CQLDeserializeNum 1 Load8 (\<lambda>b :: 8 word. set_bool_value (b \<noteq> 0)))"
| "Deserialize STRING = (\<lambda>client. DeserializeBytes (\<lambda>bs. True) set_string_value)"
| "Deserialize BINARY = (\<lambda>client. DeserializeBytes (\<lambda>bs. True) set_binary_value)"
| "Deserialize TIMESTAMP = (\<lambda>client. CQLDeserializeNum 8 Load64 set_timestamp_value)"
| "Deserialize INET = (\<lambda>client.
     DeserializeBytes (\<lambda>bs. fst (InetAddress_FromBytes bs) = OK) pb_set_inetaddress_value)"
| "Deserialize UUID = (\<lambda>client.
     DeserializeFixedBytes 16 (\<lambda>bs. fst (Uuid_FromBytes bs) = OK) pb_set_uuid_value)"
| "Deserialize TIMEUUID = (\<lambda>client.
     DeserializeFixedBytes 16
       (\<lambda>bs. fst (Uuid_FromBytes bs) = OK \<and> IsTimeUuid (snd (Uuid_FromBytes bs)) = OK)
       pb_set_timeuuid_value)"
| "Deserialize (MAP kt vt) = (\<lambda>client.
     DeserializeMap (Deserialize kt client) (Deserialize vt client))"
| "Deserialize (SET et) = (\<lambda>client. DeserializeSeq PB_set (Deserialize et client))"
| "Deserialize (LIST et) = (\<lambda>client. DeserializeSeq PB_list (Deserialize et client))"

text \<open>
  The declared length of a value of a fixed-width type, the types whose values carry a
  4-byte length prefix, and the collection types (section 4.3 of the specification).
\<close>

fun fixed_width :: "YQLType \<Rightarrow> nat option" where
  "fixed_width INT8 = Some 1"
| "fixed_width INT16 = Some 2"
| "fixed_width INT32 = Some 4"
| "fixed_width INT64 = Some 8"
| "fixed_width FLOAT = Some 4"
| "fixed_width DOUBLE = Some 8"
| "fixed_width BOOL = Some 1"
| "fixed_width TIMESTAMP = Some 8"
| "fixed_width UUID = Some 16"
| "fixed_width TIMEUUID = Some 16"
| "fixed_width ty = None"

fun length_prefixed :: "YQLType \<Rightarrow> bool" where
  "length_prefixed DECIMAL = True"
| "length_prefixed STRING = True"
| "length_prefixed BINARY = True"
| "length_prefixed INET = True"
| "length_prefixed ty = False"

fun is_collection :: "YQLType \<Rightarrow> bool" where
  "is_collection (MAP kt vt) = True"
| "is_collection (SET et) = True"
| "is_collection (LIST et) = True"
| "is_collection ty = False"

text \<open>
  The condition "the remaining bytes are fewer than the declared length of the value
  being decoded", for every input cursor and at every place where a length is
  declared. \<open>declared_length data\<close> is the number that the 4-byte prefix at the cursor
  declares. An element overruns when fewer than the 4 bytes of its prefix remain, or its
  prefix declares (a non-negative) more than what remains after it, or the value nested
  in its declared bytes overruns; \<open>after_elem\<close> is the cursor past an element. The
  elements of a collection overrun when one of them does, at its place in the input;
  the pairs of a map likewise, key then value. A value of a fixed-width type overruns
  when fewer bytes remain than its width; a value of a length-prefixed type as an
  element with nothing nested; a collection when fewer than the 4 bytes of its count
  remain or its elements overrun.
\<close>

definition declared_length :: "bytes \<Rightarrow> int" where
  "declared_length data = sint (Load32 data)"

definition overrun_elem :: "(bytes \<Rightarrow> bool) \<Rightarrow> bytes \<Rightarrow> bool" where
  "overrun_elem nested data =
     (length data < 4 \<or>
      (0 \<le> declared_length data \<and>
        (length (drop 4 data) < nat (declared_length data) \<or>
         nested (take (nat (declared_length data)) (drop 4 data)))))"

definition after_elem :: "bytes \<Rightarrow> bytes" where
  "after_elem data =
     (if declared_length data < 0 then drop 4 data
      else drop (nat (declared_length data)) (drop 4 data))"

fun overrun_elems :: "(bytes \<Rightarrow> bool) \<Rightarrow> nat \<Rightarrow> bytes \<Rightarrow> bool" where
  "overrun_elems nested 0 data = False"
| "overrun_elems nested (Suc n) data =
     (overrun_elem nested data \<or> overrun_elems nested n (after_elem data))"

fun overrun_pairs :: "(bytes \<Rightarrow> bool) \<Rightarrow> (bytes \<Rightarrow> bool) \<Rightarrow> nat \<Rightarrow> bytes \<Rightarrow> bool" where
  "overrun_pairs nestedk nestedv 0 data = False"
| "overrun_pairs nestedk nestedv (Suc n) data =
     (overrun_elem nestedk data \<or> overrun_elem nestedv (after_elem data) \<or>
      overrun_pairs nestedk nestedv n (after_elem (after_elem data)))"

definition overrun_count :: "(nat \<Rightarrow> bytes \<Rightarrow> bool) \<Rightarrow> bytes \<Rightarrow> bool" where
  "overrun_count elems data =
     (length data < 4 \<or>
      (0 \<le> declared_length data \<and> elems (nat (declared_length data)) (drop 4 data)))"

primrec overrun :: "YQLType \<Rightarrow> bytes \<Rightarrow> bool" where
  "overrun INT8 = (\<lambda>data. length data < 1)"
| "overrun INT16 = (\<lambda>data. length data < 2)"
| "overrun INT32 = (\<lambda>data. length data < 4)"
| "overrun INT64 = (\<lambda>data. length data < 8)"
| "overrun FLOAT = (\<lambda>data. length data < 4)"
| "overrun DOUBLE = (\<lambda>data. length data < 8)"
| "overrun DECIMAL = overrun_elem (\<lambda>slice. False)"
| "overrun BOOL = (\<lambda>data. length data < 1)"
| "overrun STRING = overrun_elem (\<lambda>slice. False)"
| "overrun BINARY = overrun_elem (\<lambda>slice. False)"
| "overrun TIMESTAMP = (\<lambda>data. length data < 8)"
| "overrun INET = overrun_elem (\<lambda>slice. False)"
| "overrun UUID = (\<lambda>data. length data < 16)"
| "overrun TIMEUUID = (\<lambda>data. length data < 16)"
| "overrun (MAP kt vt) = overrun_count (overrun_pairs (overrun kt) (overrun vt))"
| "overrun (SET et) = overrun_count (overrun_elems (overrun et))"
| "overrun (LIST et) = overrun_count (overrun_elems (overrun et))"

section \<open>Theorems\<close>

lemmas has_defs =
  has_int8_value_def has_int16_value_def has_int32_value_def has_int64_value_def
  has_float_value_def has_double_value_def has_decimal_value_def has_bool_value_def
  has_string_value_def has_timestamp_value_def has_binary_value_def
  has_inetaddress_value_def has_map_value_def has_set_value_def has_list_value_def
  has_uuid_value_def has_timeuuid_value_def

lemmas pb_defs =
  pb_int8_value_def pb_int16_value_def pb_int32_value_def pb_int64_value_def
  pb_float_value_def pb_double_value_def pb_decimal_value_def pb_bool_value_def
  pb_string_value_def pb_timestamp_value_def pb_binary_value_def
  pb_inetaddress_value_def pb_map_value_def pb_set_value_def pb_list_value_def
  pb_uuid_value_def pb_timeuuid_value_def

lemmas operator_defs =
  operator_lt_def operator_gt_def operator_le_def operator_ge_def operator_eq_def
  operator_ne_def

lemma and_then_not: "\<not> b \<Longrightarrow> and_then b c p = Returned False"
  by (simp add: and_then_def)

lemma and_then_True: "and_then b c p = Returned True \<Longrightarrow> b"
  by (auto simp: and_then_def split: if_splits)

text \<open>
  C2. If either operand is null (both included), each of the six relational operators
  returns false, whatever \<open>CompareTo\<close> is (it is not even called); hence an operator
  that returns true had two non-null operands.
\<close>

theorem null_relational_semantics:
  "(IsNull a \<or> IsNull b \<longrightarrow>
      operator_lt cmp a b = Returned False \<and> operator_gt cmp a b = Returned False \<and>
      operator_le cmp a b = Returned False \<and> operator_ge cmp a b = Returned False \<and>
      operator_eq cmp a b = Returned False \<and> operator_ne cmp a b = Returned False) \<and>
   (operator_lt cmp a b = Returned True \<or> operator_gt cmp a b = Returned True \<or>
    operator_le cmp a b = Returned True \<or> operator_ge cmp a b = Returned True \<or>
    operator_eq cmp a b = Returned True \<or> operator_ne cmp a b = Returned True
      \<longrightarrow> \<not> IsNull a \<and> \<not> IsNull b)"
proof (intro conjI impI)
  assume "operator_lt cmp a b = Returned True \<or> operator_gt cmp a b = Returned True \<or>
    operator_le cmp a b = Returned True \<or> operator_ge cmp a b = Returned True \<or>
    operator_eq cmp a b = Returned True \<or> operator_ne cmp a b = Returned True"
  then have "BothNotNull a b"
    unfolding operator_defs by (auto dest: and_then_True)
  then show "\<not> IsNull a" and "\<not> IsNull b"
    by (simp_all add: BothNotNull_def)
qed (simp_all add: operator_defs BothNotNull_def and_then_not)

theorem null_relational_semantics_witness:
  "IsNull PB_not_set \<and>
   operator_lt (\<lambda>x y. Returned 0) PB_not_set (PB_int32 5) = Returned False \<and>
   operator_eq (\<lambda>x y. Returned 0) PB_not_set PB_not_set = Returned False \<and>
   operator_ne (\<lambda>x y. Returned 0) (PB_int32 5) PB_not_set = Returned False \<and>
   operator_eq (\<lambda>x y. Returned 0) (PB_int32 5) (PB_int32 5) = Returned True \<and>
   \<not> IsNull (PB_int32 5)"
proof -
  have n: "IsNull PB_not_set" by (simp add: IsNull_def)
  have t: "operator_eq (\<lambda>x y. Returned 0) (PB_int32 5) (PB_int32 5) = Returned True"
    by (simp add: operator_eq_def and_then_def BothNotNull_def IsNull_def)
  from n null_relational_semantics [of PB_not_set "PB_int32 5" "\<lambda>x y. Returned 0"]
    null_relational_semantics [of PB_not_set PB_not_set "\<lambda>x y. Returned 0"]
    null_relational_semantics [of "PB_int32 5" PB_not_set "\<lambda>x y. Returned 0"]
    t null_relational_semantics [of "PB_int32 5" "PB_int32 5" "\<lambda>x y. Returned 0"]
  show ?thesis by blast
qed

subsection \<open>Assignment\<close>

lemma MergeFrom_Clear: "MergeFrom (Clear d) s = s"
  by (cases s)
    (simp_all add: MergeFrom_def Clear_def mutable_map_value_def mutable_set_value_def
      mutable_list_value_def has_defs pb_defs)

text \<open>
  C4, as the code has it. Copy-assignment makes the destination a copy of the source,
  whatever the destination held, and leaves the source unchanged. Move-assignment is a
  swap: the destination receives the source's tag and payload, whatever it held, and the
  source receives the destination's previous tag and payload; so the source is null
  afterwards exactly when the destination was null before.
\<close>

theorem assignment_copy_and_move:
  "Assign d s = (s, s) \<and> operator_assign d s = (s, s) \<and>
   AssignMove d s = (s, d) \<and> operator_assign_move d s = (s, d) \<and>
   IsNull (snd (AssignMove d s)) = IsNull d"
  by (simp add: Assign_def operator_assign_def AssignMove_def operator_assign_move_def
      CopyFrom_def MergeFrom_Clear Swap_def)

text \<open>
  C4 as stated fails: moving an \<open>int32\<close> 2 into a record that holds the \<open>int32\<close> 1
  leaves the source holding 1, not null.
\<close>

theorem move_leaves_source_null_counterexample:
  "operator_assign_move (PB_int32 1) (PB_int32 2) = (PB_int32 2, PB_int32 1) \<and>
   \<not> IsNull (snd (operator_assign_move (PB_int32 1) (PB_int32 2)))"
  by (simp add: operator_assign_move_def AssignMove_def Swap_def IsNull_def)

subsection \<open>Collections\<close>

lemma mutable_map_value_not_map: "\<not> has_map_value v \<Longrightarrow> mutable_map_value v = PB_map [] []"
  by (simp add: mutable_map_value_def)

lemma mutable_map_value_map: "mutable_map_value (PB_map ks vs) = PB_map ks vs"
  by (simp add: mutable_map_value_def has_map_value_def)

lemma add_map_key_map: "add_map_key (PB_map ks vs) = (PB_map (ks @ [PB_not_set]) vs, length ks)"
  by (simp add: add_map_key_def add_keys_def mutable_map_value_map pb_map_value_def)

lemma add_map_value_map:
  "add_map_value (PB_map ks vs) = (PB_map ks (vs @ [PB_not_set]), length vs)"
  by (simp add: add_map_value_def add_values_def mutable_map_value_map pb_map_value_def)

lemma add_map_entry_map: "add_map_entry k x (PB_map ks vs) = PB_map (ks @ [k]) (vs @ [x])"
  by (simp add: add_map_entry_def add_map_key_map add_map_value_map store_map_key_def
      store_map_value_def)

lemma add_map_entries_map:
  "add_map_entries ps (PB_map ks vs) = PB_map (ks @ map fst ps) (vs @ map snd ps)"
  by (induction ps arbitrary: ks vs) (auto simp: add_map_entry_map)

text \<open>
  C10. On a record whose tag is not the collection's (a null record included), each
  \<open>add\<close> function returns normally (the functions have no failing outcome): the record
  becomes a collection of that kind whose only element is one new null record, and the
  returned pointer refers to it. A preceding \<open>set_map_value()\<close>, \<open>set_set_value()\<close> or
  \<open>set_list_value()\<close> changes nothing in the result.
\<close>

theorem add_switches_tag_implicitly:
  "(\<not> has_map_value v \<longrightarrow>
      add_map_key v = (PB_map [PB_not_set] [], 0) \<and>
      add_map_value v = (PB_map [] [PB_not_set], 0)) \<and>
   (\<not> has_set_value v \<longrightarrow> add_set_elem v = (PB_set [PB_not_set], 0)) \<and>
   (\<not> has_list_value v \<longrightarrow> add_list_elem v = (PB_list [PB_not_set], 0)) \<and>
   add_map_key (set_map_value v) = add_map_key v \<and>
   add_map_value (set_map_value v) = add_map_value v \<and>
   add_set_elem (set_set_value v) = add_set_elem v \<and>
   add_list_elem (set_list_value v) = add_list_elem v"
  by (simp add: add_map_key_def add_map_value_def add_set_elem_def add_list_elem_def
      add_keys_def add_values_def add_elems_def set_map_value_def set_set_value_def
      set_list_value_def mutable_map_value_def mutable_set_value_def mutable_list_value_def
      pb_map_value_def pb_set_value_def pb_list_value_def)

theorem add_switches_tag_implicitly_witness:
  "\<not> has_map_value PB_not_set \<and> \<not> has_set_value (PB_int32 7) \<and>
   \<not> has_list_value (PB_map [] []) \<and>
   add_map_key PB_not_set = (PB_map [PB_not_set] [], 0) \<and>
   add_map_value PB_not_set = (PB_map [] [PB_not_set], 0) \<and>
   add_set_elem (PB_int32 7) = (PB_set [PB_not_set], 0) \<and>
   add_list_elem (PB_map [] []) = (PB_list [PB_not_set], 0)"
proof -
  have a: "\<not> has_map_value PB_not_set" "\<not> has_set_value PB_not_set"
    "\<not> has_list_value PB_not_set"
    by (simp_all add: has_defs)
  have b: "\<not> has_set_value (PB_int32 7)" by (simp add: has_defs)
  have c: "\<not> has_list_value (PB_map [] [])" by (simp add: has_defs)
  from a b c add_switches_tag_implicitly [of PB_not_set]
    add_switches_tag_implicitly [of "PB_int32 7"]
    add_switches_tag_implicitly [of "PB_map [] []"]
  show ?thesis by blast
qed

text \<open>
  C7, as the code has it. \<open>set_map_value()\<close> leaves a map as it is and turns any other
  record into the empty map. \<open>add_map_key()\<close> appends one null key, at index
  \<open>len(keys)\<close>, and leaves the values alone; \<open>add_map_value()\<close> appends one null
  value, at index \<open>len(values)\<close>, and leaves the keys alone. A paired, populated call
  therefore appends the key at index \<open>len(keys)\<close> and the value at index
  \<open>len(values)\<close>, also when it follows the key's append. On a map whose two
  sequences have equal length, and so after \<open>set_map_value()\<close> on a record that was not
  a map, paired calls keep the lengths equal, and the key and the value of pair \<open>i\<close>
  land at the same index, \<open>len(keys) + i\<close>, of the two sequences.
\<close>

theorem map_paired_appends_aligned:
  "(\<not> has_map_value v \<longrightarrow>
      set_map_value v = PB_map [] [] \<and>
      add_map_entries ps (set_map_value v) = PB_map (map fst ps) (map snd ps)) \<and>
   set_map_value (PB_map ks vs) = PB_map ks vs \<and>
   add_map_key (PB_map ks vs) = (PB_map (ks @ [PB_not_set]) vs, length ks) \<and>
   add_map_value (PB_map ks vs) = (PB_map ks (vs @ [PB_not_set]), length vs) \<and>
   snd (add_map_value (store_map_key (length ks) k (fst (add_map_key (PB_map ks vs))))) =
     length vs \<and>
   add_map_entry k x (PB_map ks vs) = PB_map (ks @ [k]) (vs @ [x]) \<and>
   add_map_entries ps (PB_map ks vs) = PB_map (ks @ map fst ps) (vs @ map snd ps) \<and>
   (length ks = length vs \<longrightarrow>
      length (fst (pb_map_value (add_map_entries ps (PB_map ks vs)))) =
      length (snd (pb_map_value (add_map_entries ps (PB_map ks vs)))) \<and>
      (\<forall>i<length ps.
         fst (pb_map_value (add_map_entries ps (PB_map ks vs))) ! (length ks + i) = fst (ps ! i) \<and>
         snd (pb_map_value (add_map_entries ps (PB_map ks vs))) ! (length ks + i) = snd (ps ! i)))"
  by (auto simp add: set_map_value_def mutable_map_value_not_map mutable_map_value_map
      add_map_key_map add_map_value_map add_map_entry_map add_map_entries_map pb_map_value_def
      store_map_key_def nth_append)

theorem map_paired_appends_aligned_witness:
  "\<not> has_map_value (PB_string []) \<and>
   add_map_entries [(PB_int32 1, PB_bool True), (PB_int32 2, PB_bool False)]
       (set_map_value (PB_string [])) =
     PB_map [PB_int32 1, PB_int32 2] [PB_bool True, PB_bool False] \<and>
   length [PB_int32 0] = length [PB_bool True] \<and>
   (1 :: nat) < length [(PB_int32 1, PB_bool True), (PB_int32 2, PB_bool False)] \<and>
   add_map_entries [(PB_int32 1, PB_bool True), (PB_int32 2, PB_bool False)]
       (PB_map [PB_int32 0] [PB_bool True]) =
     PB_map [PB_int32 0, PB_int32 1, PB_int32 2] [PB_bool True, PB_bool True, PB_bool False] \<and>
   fst (pb_map_value (add_map_entries [(PB_int32 1, PB_bool True), (PB_int32 2, PB_bool False)]
       (PB_map [PB_int32 0] [PB_bool True]))) ! (length [PB_int32 0] + 1) = PB_int32 2 \<and>
   snd (pb_map_value (add_map_entries [(PB_int32 1, PB_bool True), (PB_int32 2, PB_bool False)]
       (PB_map [PB_int32 0] [PB_bool True]))) ! (length [PB_int32 0] + 1) = PB_bool False"
proof -
  have a: "\<not> has_map_value (PB_string [])" by (simp add: has_defs)
  have b: "length [PB_int32 0] = length [PB_bool True]" by simp
  have c: "(1 :: nat) < length [(PB_int32 1, PB_bool True), (PB_int32 2, PB_bool False)]"
    by simp
  note t1 = map_paired_appends_aligned [of "PB_string []"
      "[(PB_int32 1, PB_bool True), (PB_int32 2, PB_bool False)]" "[]" "[]", THEN conjunct1,
      rule_format, OF a, THEN conjunct2]
  note t = map_paired_appends_aligned [of PB_not_set
      "[(PB_int32 1, PB_bool True), (PB_int32 2, PB_bool False)]"
      "[PB_int32 0]" "[PB_bool True]"]
  note t2 = t [THEN conjunct2, THEN conjunct2, THEN conjunct2, THEN conjunct2, THEN conjunct2,
      THEN conjunct2, THEN conjunct1]
  note t3 = t [THEN conjunct2, THEN conjunct2, THEN conjunct2, THEN conjunct2, THEN conjunct2,
      THEN conjunct2, THEN conjunct2, rule_format, OF b, THEN conjunct2, rule_format, OF c]
  from t1 have r1: "add_map_entries [(PB_int32 1, PB_bool True), (PB_int32 2, PB_bool False)]
       (set_map_value (PB_string [])) =
     PB_map [PB_int32 1, PB_int32 2] [PB_bool True, PB_bool False]"
    by simp
  from t2 have r2: "add_map_entries [(PB_int32 1, PB_bool True), (PB_int32 2, PB_bool False)]
       (PB_map [PB_int32 0] [PB_bool True]) =
     PB_map [PB_int32 0, PB_int32 1, PB_int32 2] [PB_bool True, PB_bool True, PB_bool False]"
    by simp
  from t3 have r3: "fst (pb_map_value (add_map_entries
         [(PB_int32 1, PB_bool True), (PB_int32 2, PB_bool False)]
         (PB_map [PB_int32 0] [PB_bool True]))) ! (length [PB_int32 0] + 1) = PB_int32 2"
    and r4: "snd (pb_map_value (add_map_entries
         [(PB_int32 1, PB_bool True), (PB_int32 2, PB_bool False)]
         (PB_map [PB_int32 0] [PB_bool True]))) ! (length [PB_int32 0] + 1) = PB_bool False"
    by simp_all
  from a b c r1 r2 r3 r4 show ?thesis by blast
qed

text \<open>
  C7 as stated fails: a single \<open>add_map_key()\<close> is an operation of the interface, and
  after it on an empty map there is one key and no value; and a paired call on a map
  with one key and no value puts the new key at index 1 and the new value at index 0.
\<close>

theorem single_add_map_key_counterexample:
  "fst (add_map_key (set_map_value PB_not_set)) = PB_map [PB_not_set] [] \<and>
   length (fst (pb_map_value (fst (add_map_key (set_map_value PB_not_set))))) \<noteq>
   length (snd (pb_map_value (fst (add_map_key (set_map_value PB_not_set))))) \<and>
   add_map_entry (PB_int32 2) (PB_bool True) (PB_map [PB_int32 1] []) =
     PB_map [PB_int32 1, PB_int32 2] [PB_bool True]"
  by (simp add: set_map_value_def mutable_map_value_def has_map_value_def add_map_key_map
      pb_map_value_def add_map_entry_map)

subsection \<open>Big-endian bytes\<close>

lemma length_be_encode: "length (be_encode n x) = n"
  by (induction n arbitrary: x) simp_all

lemma be_decode_snoc: "be_decode (bs @ [b]) = be_decode bs * 256 + unat b"
  by (simp add: be_decode_def)

lemma unat_byte_of_nat: "unat (of_nat (x mod 256) :: 8 word) = x mod 256"
  by (simp add: unat_of_nat)

lemma be_decode_encode: "x < 256 ^ n \<Longrightarrow> be_decode (be_encode n x) = x"
proof (induction n arbitrary: x)
  case 0
  then show ?case by (simp add: be_decode_def)
next
  case (Suc n)
  from Suc.prems have "x div 256 < 256 ^ n"
    by (simp add: less_mult_imp_div_less mult.commute)
  then have "be_decode (be_encode n (x div 256)) = x div 256"
    by (rule Suc.IH)
  then show ?case
    by (simp add: be_decode_snoc unat_byte_of_nat)
qed

lemma unat_uuid_bound: "unat (u :: 128 word) < 256 ^ 16"
  using unsigned_less [of u, where ?'a = nat] by simp

lemma be_decode_encode_uuid: "be_decode (be_encode 16 (unat (u :: 128 word))) = unat u"
  by (rule be_decode_encode) (rule unat_uuid_bound)

lemma Uuid_FromBytes_ToBytes: "Uuid_FromBytes (snd (Uuid_ToBytes u)) = (OK, u)"
  by (simp add: Uuid_FromBytes_def Uuid_ToBytes_def length_be_encode be_decode_encode_uuid)

subsection \<open>Typed getters\<close>

lemmas plain_getter_defs =
  int8_value_def int16_value_def int32_value_def int64_value_def float_value_def
  double_value_def decimal_value_def bool_value_def string_value_def timestamp_value_def
  binary_value_def map_value_def set_value_def list_value_def

lemmas decoding_getter_defs =
  inetaddress_value_def uuid_value_def timeuuid_value_def

lemma plain_getters_match:
  "int8_value (PB_int8 i8) = Returned i8"
  "int16_value (PB_int16 i16) = Returned i16"
  "int32_value (PB_int32 i32) = Returned i32"
  "int64_value (PB_int64 i64) = Returned i64"
  "float_value (PB_float f) = Returned f"
  "double_value (PB_double d) = Returned d"
  "decimal_value (PB_decimal dec) = Returned dec"
  "bool_value (PB_bool b) = Returned b"
  "string_value (PB_string str) = Returned str"
  "timestamp_value (PB_timestamp t) = Returned (Timestamp t)"
  "binary_value (PB_binary bin) = Returned bin"
  "map_value (PB_map ks vs) = Returned (ks, vs)"
  "set_value (PB_set xs) = Returned xs"
  "list_value (PB_list ys) = Returned ys"
  by (simp_all add: plain_getter_defs CHECK_def has_defs pb_defs)

lemma plain_getters_mismatch:
  "value_case v \<noteq> kInt8Value \<Longrightarrow> int8_value v = CheckFailure"
  "value_case v \<noteq> kInt16Value \<Longrightarrow> int16_value v = CheckFailure"
  "value_case v \<noteq> kInt32Value \<Longrightarrow> int32_value v = CheckFailure"
  "value_case v \<noteq> kInt64Value \<Longrightarrow> int64_value v = CheckFailure"
  "value_case v \<noteq> kFloatValue \<Longrightarrow> float_value v = CheckFailure"
  "value_case v \<noteq> kDoubleValue \<Longrightarrow> double_value v = CheckFailure"
  "value_case v \<noteq> kDecimalValue \<Longrightarrow> decimal_value v = CheckFailure"
  "value_case v \<noteq> kBoolValue \<Longrightarrow> bool_value v = CheckFailure"
  "value_case v \<noteq> kStringValue \<Longrightarrow> string_value v = CheckFailure"
  "value_case v \<noteq> kTimestampValue \<Longrightarrow> timestamp_value v = CheckFailure"
  "value_case v \<noteq> kBinaryValue \<Longrightarrow> binary_value v = CheckFailure"
  "value_case v \<noteq> kMapValue \<Longrightarrow> map_value v = CheckFailure"
  "value_case v \<noteq> kSetValue \<Longrightarrow> set_value v = CheckFailure"
  "value_case v \<noteq> kListValue \<Longrightarrow> list_value v = CheckFailure"
  by (simp_all add: plain_getter_defs CHECK_def has_defs)

lemma decoding_getters_mismatch:
  "value_case v \<noteq> kInetaddressValue \<Longrightarrow> inetaddress_value v = CheckFailure"
  "value_case v \<noteq> kUuidValue \<Longrightarrow> uuid_value v = CheckFailure"
  "value_case v \<noteq> kTimeuuidValue \<Longrightarrow> timeuuid_value v = CheckFailure"
  by (simp_all add: decoding_getter_defs CHECK_def has_defs)

lemma inetaddress_value_match:
  "inetaddress_value (PB_inetaddress bs) =
     (if length bs = 4 then Returned (IPv4 (of_nat (be_decode bs)))
      else if length bs = 16 then Returned (IPv6 (of_nat (be_decode bs)))
      else CheckFailure)"
  by (simp add: inetaddress_value_def CHECK_def CHECK_OK_def has_defs pb_defs
      InetAddress_FromBytes_def)

lemma uuid_value_match:
  "uuid_value (PB_uuid bs) =
     (if length bs = 16 then Returned (of_nat (be_decode bs)) else CheckFailure)"
  by (simp add: uuid_value_def CHECK_def CHECK_OK_def has_defs pb_defs Uuid_FromBytes_def)

lemma timeuuid_value_match:
  "timeuuid_value (PB_timeuuid bs) =
     (if length bs = 16 \<and> version (of_nat (be_decode bs)) = 1
      then Returned (of_nat (be_decode bs)) else CheckFailure)"
  by (simp add: timeuuid_value_def CHECK_def CHECK_OK_def has_defs pb_defs Uuid_FromBytes_def
      IsTimeUuid_def)

text \<open>
  C6, as the code has it. Every typed getter trips the hard assertion when the record's
  tag is not the getter's (a null record included). When the tag matches, the getters
  of the integer, float, double, decimal, bool, string, timestamp, binary, map, set and
  list payloads return the stored payload. The getters of inet address, UUID and
  time-UUID decode the stored bytes after the tag check, under further hard assertions:
  they return the decoded value when the bytes are well formed (4 or 16 bytes for an
  address, 16 bytes for a UUID, and a time-based version for a time-UUID) and trip a hard
  assertion otherwise.
\<close>

theorem typed_getters_check_tag:
  "int8_value (PB_int8 i8) = Returned i8 \<and>
   (value_case v \<noteq> kInt8Value \<longrightarrow> int8_value v = CheckFailure) \<and>
   int16_value (PB_int16 i16) = Returned i16 \<and>
   (value_case v \<noteq> kInt16Value \<longrightarrow> int16_value v = CheckFailure) \<and>
   int32_value (PB_int32 i32) = Returned i32 \<and>
   (value_case v \<noteq> kInt32Value \<longrightarrow> int32_value v = CheckFailure) \<and>
   int64_value (PB_int64 i64) = Returned i64 \<and>
   (value_case v \<noteq> kInt64Value \<longrightarrow> int64_value v = CheckFailure) \<and>
   float_value (PB_float f) = Returned f \<and>
   (value_case v \<noteq> kFloatValue \<longrightarrow> float_value v = CheckFailure) \<and>
   double_value (PB_double d) = Returned d \<and>
   (value_case v \<noteq> kDoubleValue \<longrightarrow> double_value v = CheckFailure) \<and>
   decimal_value (PB_decimal dec) = Returned dec \<and>
   (value_case v \<noteq> kDecimalValue \<longrightarrow> decimal_value v = CheckFailure) \<and>
   bool_value (PB_bool b) = Returned b \<and>
   (value_case v \<noteq> kBoolValue \<longrightarrow> bool_value v = CheckFailure) \<and>
   string_value (PB_string str) = Returned str \<and>
   (value_case v \<noteq> kStringValue \<longrightarrow> string_value v = CheckFailure) \<and>
   timestamp_value (PB_timestamp t) = Returned (Timestamp t) \<and>
   (value_case v \<noteq> kTimestampValue \<longrightarrow> timestamp_value v = CheckFailure) \<and>
   binary_value (PB_binary bin) = Returned bin \<and>
   (value_case v \<noteq> kBinaryValue \<longrightarrow> binary_value v = CheckFailure) \<and>
   map_value (PB_map ks vs) = Returned (ks, vs) \<and>
   (value_case v \<noteq> kMapValue \<longrightarrow> map_value v = CheckFailure) \<and>
   set_value (PB_set xs) = Returned xs \<and>
   (value_case v \<noteq> kSetValue \<longrightarrow> set_value v = CheckFailure) \<and>
   list_value (PB_list ys) = Returned ys \<and>
   (value_case v \<noteq> kListValue \<longrightarrow> list_value v = CheckFailure) \<and>
   inetaddress_value (PB_inetaddress bs) =
     (if length bs = 4 then Returned (IPv4 (of_nat (be_decode bs)))
      else if length bs = 16 then Returned (IPv6 (of_nat (be_decode bs)))
      else CheckFailure) \<and>
   (value_case v \<noteq> kInetaddressValue \<longrightarrow> inetaddress_value v = CheckFailure) \<and>
   uuid_value (PB_uuid bs) =
     (if length bs = 16 then Returned (of_nat (be_decode bs)) else CheckFailure) \<and>
   (value_case v \<noteq> kUuidValue \<longrightarrow> uuid_value v = CheckFailure) \<and>
   timeuuid_value (PB_timeuuid bs) =
     (if length bs = 16 \<and> version (of_nat (be_decode bs)) = 1
      then Returned (of_nat (be_decode bs)) else CheckFailure) \<and>
   (value_case v \<noteq> kTimeuuidValue \<longrightarrow> timeuuid_value v = CheckFailure)"
  by (intro conjI impI plain_getters_match plain_getters_mismatch decoding_getters_mismatch
      inetaddress_value_match uuid_value_match timeuuid_value_match)

theorem typed_getters_check_tag_witness:
  "value_case PB_not_set \<noteq> kInt8Value \<and> int8_value PB_not_set = CheckFailure \<and>
   int16_value PB_not_set = CheckFailure \<and> int32_value PB_not_set = CheckFailure \<and>
   int64_value PB_not_set = CheckFailure \<and> float_value PB_not_set = CheckFailure \<and>
   double_value PB_not_set = CheckFailure \<and> decimal_value PB_not_set = CheckFailure \<and>
   bool_value PB_not_set = CheckFailure \<and> string_value PB_not_set = CheckFailure \<and>
   timestamp_value PB_not_set = CheckFailure \<and> binary_value PB_not_set = CheckFailure \<and>
   map_value PB_not_set = CheckFailure \<and> set_value PB_not_set = CheckFailure \<and>
   list_value PB_not_set = CheckFailure \<and> inetaddress_value PB_not_set = CheckFailure \<and>
   uuid_value PB_not_set = CheckFailure \<and> timeuuid_value PB_not_set = CheckFailure \<and>
   value_case (PB_string [1]) \<noteq> kInt32Value \<and> int32_value (PB_string [1]) = CheckFailure \<and>
   int32_value (PB_int32 42) = Returned 42"
proof -
  have n: "value_case PB_not_set = VALUE_NOT_SET" by simp
  have m: "value_case (PB_string [1]) \<noteq> kInt32Value" by simp
  from m typed_getters_check_tag [of 0 PB_not_set 0 0 0 0 0 "[]" False "[]" 0 "[]" "[]" "[]"
      "[]" "[]" "[]"]
    typed_getters_check_tag [of 0 "PB_string [1]" 0 42 0 0 0 "[]" False "[]" 0 "[]" "[]" "[]"
      "[]" "[]" "[]"]
  show ?thesis unfolding n by simp
qed

text \<open>
  C6 as stated fails for the decoding getters: a record whose tag is time-UUID and whose
  16 bytes carry version 4 has the getter's own tag, and the getter trips a hard
  assertion instead of returning the payload.
\<close>

theorem timeuuid_getter_counterexample:
  "value_case (PB_timeuuid [0, 0, 0, 0, 0, 0, 0x40, 0, 0, 0, 0, 0, 0, 0, 0, 0]) = kTimeuuidValue \<and>
   timeuuid_value (PB_timeuuid [0, 0, 0, 0, 0, 0, 0x40, 0, 0, 0, 0, 0, 0, 0, 0, 0]) = CheckFailure"
  by (simp add: timeuuid_value_def CHECK_def has_defs pb_defs Uuid_FromBytes_def be_decode_def
      IsTimeUuid_def version_def CHECK_OK_def)

subsection \<open>The time-UUID setter\<close>

text \<open>
  C3, as the code has it. When the UUID's version field does not indicate a time-based
  UUID, \<open>IsTimeUuid\<close> yields \<open>InvalidArgument\<close> and the setter's \<open>CHECK_OK\<close> turns it
  into a hard assertion failure: the setter does not return. When the version field
  indicates a time-based UUID the setter succeeds: the record becomes a time-UUID holding
  the UUID's 16 bytes, and the getter reads the same UUID back.
\<close>

theorem set_timeuuid_value_asserts_time_based:
  "(version val \<noteq> 1 \<longrightarrow>
      IsTimeUuid val = InvalidArgument \<and> set_timeuuid_value val v = CheckFailure) \<and>
   (version val = 1 \<longrightarrow>
      set_timeuuid_value val v = Returned (PB_timeuuid (be_encode 16 (unat val))) \<and>
      timeuuid_value (PB_timeuuid (be_encode 16 (unat val))) = Returned val)"
  by (simp add: set_timeuuid_value_def IsTimeUuid_def CHECK_OK_def Uuid_ToBytes_def
      pb_set_timeuuid_value_def timeuuid_value_match length_be_encode be_decode_encode_uuid)

theorem set_timeuuid_value_asserts_time_based_witness:
  "version 0x00000000000010000000000000000000 = 1 \<and>
   set_timeuuid_value 0x00000000000010000000000000000000 (PB_int32 3) =
     Returned (PB_timeuuid (be_encode 16 (unat (0x00000000000010000000000000000000 :: Uuid)))) \<and>
   version 0x00000000000040000000000000000000 \<noteq> 1 \<and>
   set_timeuuid_value 0x00000000000040000000000000000000 (PB_int32 3) = CheckFailure"
proof -
  have a: "version 0x00000000000010000000000000000000 = 1"
    by (simp add: version_def)
  have b: "version 0x00000000000040000000000000000000 \<noteq> 1"
    by (simp add: version_def)
  from a b
    set_timeuuid_value_asserts_time_based [of "0x00000000000010000000000000000000" "PB_int32 3"]
    set_timeuuid_value_asserts_time_based [of "0x00000000000040000000000000000000" "PB_int32 3"]
  show ?thesis by blast
qed

text \<open>
  C3 as stated fails: for a version-4 UUID the setter does not return a recoverable
  result, it aborts.
\<close>

theorem set_timeuuid_value_counterexample:
  "IsTimeUuid 0x00000000000040000000000000000000 = InvalidArgument \<and>
   set_timeuuid_value 0x00000000000040000000000000000000 PB_not_set = CheckFailure \<and>
   (\<forall>r. set_timeuuid_value 0x00000000000040000000000000000000 PB_not_set \<noteq> Returned r)"
  by (simp add: set_timeuuid_value_def IsTimeUuid_def version_def CHECK_OK_def)

subsection \<open>\<open>SetColumnValue\<close>\<close>

lemma find_column_absent:
  "col_name \<notin> fst ` set schema \<Longrightarrow> find_column schema col_name = kColumnNotFound"
  by (induction schema) (auto simp: Let_def)

lemma find_column_present:
  "col_name \<in> fst ` set schema \<Longrightarrow>
     0 \<le> find_column schema col_name \<and> nat (find_column schema col_name) < length schema \<and>
     fst (schema ! nat (find_column schema col_name)) = col_name"
proof (induction schema)
  case Nil
  then show ?case by simp
next
  case (Cons c cs)
  show ?case
  proof (cases "fst c = col_name")
    case True
    then show ?thesis by simp
  next
    case False
    with Cons.prems have "col_name \<in> fst ` set cs" by auto
    from Cons.IH [OF this] False show ?thesis
      by (auto simp: Let_def kColumnNotFound_def nat_add_distrib)
  qed
qed

text \<open>
  C9. For every column name, value and row: when the name is absent from the schema,
  \<open>SetColumnValue\<close> returns \<open>NotFound\<close> and the row is unchanged; when the name is
  present, \<open>find_column\<close> gives the index of a column with that name, and
  \<open>SetColumnValue\<close> returns \<open>OK\<close> with the row in which the cell at that index has
  been assigned \<open>GetValue(value, data_type)\<close> for that column's data type.
\<close>

theorem SetColumnValue_by_name:
  "(col_name \<notin> fst ` set schema \<longrightarrow>
      SetColumnValue GetValue assign_column schema col_name val row = (NotFound, row)) \<and>
   (col_name \<in> fst ` set schema \<longrightarrow>
      0 \<le> find_column schema col_name \<and>
      nat (find_column schema col_name) < length schema \<and>
      fst (schema ! nat (find_column schema col_name)) = col_name \<and>
      SetColumnValue GetValue assign_column schema col_name val row =
        (OK, assign_column row (find_column schema col_name)
          (GetValue val (snd (schema ! nat (find_column schema col_name))))))"
proof (intro conjI impI)
  assume "col_name \<notin> fst ` set schema"
  then show "SetColumnValue GetValue assign_column schema col_name val row = (NotFound, row)"
    by (simp add: SetColumnValue_def find_column_absent)
next
  assume a: "col_name \<in> fst ` set schema"
  then have p: "0 \<le> find_column schema col_name"
    "nat (find_column schema col_name) < length schema"
    "fst (schema ! nat (find_column schema col_name)) = col_name"
    using find_column_present [of col_name schema] by simp_all
  from p(1) have nf: "find_column schema col_name \<noteq> kColumnNotFound"
    by (simp add: kColumnNotFound_def)
  show "0 \<le> find_column schema col_name" by (rule p(1))
  show "nat (find_column schema col_name) < length schema" by (rule p(2))
  show "fst (schema ! nat (find_column schema col_name)) = col_name" by (rule p(3))
  from nf show "SetColumnValue GetValue assign_column schema col_name val row =
        (OK, assign_column row (find_column schema col_name)
          (GetValue val (snd (schema ! nat (find_column schema col_name)))))"
    by (simp add: SetColumnValue_def Let_def column_def)
qed

theorem SetColumnValue_by_name_witness:
  "''c'' \<notin> fst ` set [(''a'', True), (''b'', False)] \<and>
   SetColumnValue (\<lambda>x t. (x, t)) (\<lambda>row i x. row[nat i := x]) [(''a'', True), (''b'', False)]
       ''c'' (5 :: nat) [(0, True), (0, True)] = (NotFound, [(0, True), (0, True)]) \<and>
   ''b'' \<in> fst ` set [(''a'', True), (''b'', False)] \<and>
   SetColumnValue (\<lambda>x t. (x, t)) (\<lambda>row i x. row[nat i := x]) [(''a'', True), (''b'', False)]
       ''b'' (5 :: nat) [(0, True), (0, True)] = (OK, [(0, True), (5, False)])"
proof -
  have a: "''c'' \<notin> fst ` set [(''a'', True), (''b'', False)]" by simp
  have b: "''b'' \<in> fst ` set [(''a'', True), (''b'', False)]" by simp
  have i: "find_column [(''a'', True), (''b'', False)] ''b'' = 1"
    by (simp add: kColumnNotFound_def)
  from a
    SetColumnValue_by_name [of "''c''" "[(''a'', True), (''b'', False)]" "\<lambda>x t. (x, t)"
      "\<lambda>row i x. row[nat i := x]" 5 "[(0, True), (0, True)]"]
  have r1: "SetColumnValue (\<lambda>x t. (x, t)) (\<lambda>row i x. row[nat i := x])
       [(''a'', True), (''b'', False)] ''c'' (5 :: nat) [(0, True), (0, True)] =
     (NotFound, [(0, True), (0, True)])"
    by blast
  from b
    SetColumnValue_by_name [of "''b''" "[(''a'', True), (''b'', False)]" "\<lambda>x t. (x, t)"
      "\<lambda>row i x. row[nat i := x]" 5 "[(0, True), (0, True)]"]
  have "SetColumnValue (\<lambda>x t. (x, t)) (\<lambda>row i x. row[nat i := x])
       [(''a'', True), (''b'', False)] ''b'' (5 :: nat) [(0, True), (0, True)] =
     (OK, [(0, True), (0, True)][nat (find_column [(''a'', True), (''b'', False)] ''b'') :=
       (5, snd ([(''a'', True), (''b'', False)] !
         nat (find_column [(''a'', True), (''b'', False)] ''b'')))])"
    by blast
  then have r2: "SetColumnValue (\<lambda>x t. (x, t)) (\<lambda>row i x. row[nat i := x])
       [(''a'', True), (''b'', False)] ''b'' (5 :: nat) [(0, True), (0, True)] =
     (OK, [(0, True), (5, False)])"
    unfolding i by simp
  from a b r1 r2 show ?thesis by blast
qed

subsection \<open>The wire codec\<close>

lemma be_encode_numeral:
  "be_encode (numeral k) x = be_encode (pred_numeral k) (x div 256) @ [of_nat (x mod 256)]"
  by (metis be_encode.simps(2) numeral_eq_Suc)

lemma take_be_encode: "take n (be_encode n x @ rest) = be_encode n x"
  by (simp add: length_be_encode)

lemma drop_be_encode: "drop n (be_encode n x @ rest) = rest"
  by (simp add: length_be_encode)

lemma be_decode_bound: "be_decode bs < 256 ^ length bs"
proof (induction bs rule: rev_induct)
  case Nil
  show ?case by (simp add: be_decode_def)
next
  case (snoc b bs)
  have "unat b < 256" using unsigned_less [of b, where ?'a = nat] by simp
  with snoc show ?case by (simp add: be_decode_snoc)
qed

lemma be_encode_decode: "be_encode (length bs) (be_decode bs) = bs"
proof (induction bs rule: rev_induct)
  case Nil
  show ?case by simp
next
  case (snoc b bs)
  have b: "unat b < 256" using unsigned_less [of b, where ?'a = nat] by simp
  then have "(be_decode bs * 256 + unat b) div 256 = be_decode bs"
    and "(be_decode bs * 256 + unat b) mod 256 = unat b"
    by simp_all
  with snoc show ?case by (simp add: be_decode_snoc)
qed

lemma sint_length_prefix:
  assumes "- (2 ^ 31) \<le> n" "n < 2 ^ 31"
  shows "sint (of_nat (nat (n mod 2 ^ 32)) :: 32 word) = n"
proof -
  have "(of_nat (nat (n mod 2 ^ 32)) :: 32 word) = word_of_int (n mod 2 ^ 32)"
    by (rule word_of_int_nat [symmetric]) simp
  also have "\<dots> = word_of_int n"
    by transfer (simp add: take_bit_eq_mod)
  finally have e: "(of_nat (nat (n mod 2 ^ 32)) :: 32 word) = word_of_int n" .
  have "sint (word_of_int n :: 32 word) = n"
    using assms by (simp only: signed_of_int) (simp add: signed_take_bit_int_eq_self)
  with e show ?thesis by (simp only:)
qed

lemma CQLDecodeLength_encode:
  assumes "- (2 ^ 31) \<le> n" "n < 2 ^ 31"
  shows "CQLDecodeLength (CQLEncodeLength n @ rest) = (OK, n, rest)"
proof -
  have lt: "nat (n mod 2 ^ 32) < 256 ^ 4" by simp
  have d: "be_decode (be_encode 4 (nat (n mod 2 ^ 32))) = nat (n mod 2 ^ 32)"
    by (rule be_decode_encode) (rule lt)
  have l: "\<not> length (be_encode 4 (nat (n mod 2 ^ 32)) @ rest) < 4"
    by (simp add: length_be_encode)
  show ?thesis
    unfolding CQLDecodeLength_def CQLDecodeNum_def CQLEncodeLength_def Load32_def
    by (simp only: l if_False take_be_encode drop_be_encode d sint_length_prefix [OF assms]
        ucast_id split_conv take_all length_be_encode order_refl)
qed

lemma CQLDecodeLength_short:
  "length data < 4 \<Longrightarrow> CQLDecodeLength data = (Corruption, 0, data)"
  by (simp add: CQLDecodeLength_def CQLDecodeNum_def)

lemmas eval_defs = then_do_def plain_getter_defs CHECK_def has_defs pb_defs be_encode_numeral
  SerializeNullable_def IsNull_def CQLEncodeBytes_def CQLEncodeLength_def
  DeserializeBytes_def CQLDecodeLength_def CQLDecodeNum_def CQLDeserializeNum_def Load32_def
  be_decode_def set_string_value_def set_int32_value_def SetNull_def Clear_def

text \<open>
  C8. The end-to-end scenario: the \<open>int32\<close> 42 is the four bytes 00 00 00 2A, the
  string "ab" is the six bytes 00 00 00 02 61 62, a null string is the four bytes
  FF FF FF FF, which read as the length prefix -1; each byte string decodes back to the
  original value, consuming all of it, and the record decoded from FF FF FF FF is null.
\<close>

theorem end_to_end_scenario:
  "Serialize INT32 client (PB_int32 42) [] = Returned [0x00, 0x00, 0x00, 0x2A] \<and>
   Serialize STRING client (PB_string (map of_char ''ab'')) [] =
     Returned [0x00, 0x00, 0x00, 0x02, 0x61, 0x62] \<and>
   Serialize STRING client PB_not_set [] = Returned [0xFF, 0xFF, 0xFF, 0xFF] \<and>
   CQLDecodeLength [0xFF, 0xFF, 0xFF, 0xFF] = (OK, - 1, []) \<and>
   Deserialize INT32 client this [0x00, 0x00, 0x00, 0x2A] = (OK, PB_int32 42, []) \<and>
   Deserialize STRING client this [0x00, 0x00, 0x00, 0x02, 0x61, 0x62] =
     (OK, PB_string (map of_char ''ab''), []) \<and>
   Deserialize STRING client this [0xFF, 0xFF, 0xFF, 0xFF] = (OK, PB_not_set, []) \<and>
   IsNull (fst (snd (Deserialize STRING client this [0xFF, 0xFF, 0xFF, 0xFF])))"
  by (simp add: eval_defs)

lemma CQLDeserializeNum_short:
  "length data < len \<Longrightarrow> CQLDeserializeNum len converter setter this data = (Corruption, this, data)"
  by (simp add: CQLDeserializeNum_def CQLDecodeNum_def)

lemma CQLDeserializeNum_enough:
  "len \<le> length data \<Longrightarrow> CQLDeserializeNum len converter setter this data =
      (OK, setter (ucast (converter (take len data))) this, drop len data)"
  by (simp add: CQLDeserializeNum_def CQLDecodeNum_def)

lemma Deserialize_fixed_short:
  "fixed_width ty = Some w \<Longrightarrow> length data < w \<Longrightarrow>
     Deserialize ty client this data = (Corruption, this, data)"
  by (cases ty)
    (simp_all add: CQLDeserializeNum_def CQLDeserializeFloat_def CQLDecodeNum_def
      DeserializeFixedBytes_def)

lemma Deserialize_prefix_short:
  "fixed_width ty = None \<Longrightarrow> length data < 4 \<Longrightarrow>
     Deserialize ty client this data = (Corruption, this, data)"
  by (cases ty)
    (simp_all add: DeserializeBytes_def DeserializeSeq_def DeserializeMap_def
      CQLDecodeLength_short)

lemma Deserialize_bytes_short:
  assumes "length_prefixed ty" "0 \<le> n" "n < 2 ^ 31" "length rest < nat n"
  shows "Deserialize ty client this (CQLEncodeLength n @ rest) = (Corruption, this, rest)"
proof -
  have "CQLDecodeLength (CQLEncodeLength n @ rest) = (OK, n, rest)"
    using assms by (intro CQLDecodeLength_encode) simp_all
  with assms show ?thesis
    by (cases ty) (simp_all add: DeserializeBytes_def)
qed

lemma decode_elem_short:
  assumes "0 \<le> m" "m < 2 ^ 31" "length rest < nat m"
  shows "decode_elem des (CQLEncodeLength m @ rest) = (Corruption, PB_not_set, rest)"
proof -
  have "CQLDecodeLength (CQLEncodeLength m @ rest) = (OK, m, rest)"
    using assms by (intro CQLDecodeLength_encode) simp_all
  with assms show ?thesis
    by (simp add: decode_elem_def)
qed

lemma Deserialize_element_short:
  assumes "is_collection ty" "0 < n" "n < 2 ^ 31" "0 \<le> m" "m < 2 ^ 31" "length rest < nat m"
  shows "Deserialize ty client this (CQLEncodeLength n @ CQLEncodeLength m @ rest) =
     (Corruption, this, rest)"
proof -
  have c: "CQLDecodeLength (CQLEncodeLength n @ CQLEncodeLength m @ rest) =
      (OK, n, CQLEncodeLength m @ rest)"
    using assms by (intro CQLDecodeLength_encode) simp_all
  from assms obtain k where k: "nat n = Suc k"
    by (cases "nat n") simp_all
  from assms c k show ?thesis
    by (cases ty)
      (simp_all add: DeserializeSeq_def DeserializeMap_def decode_elem_short)
qed


lemma CQLDecodeLength_eq:
  "CQLDecodeLength data =
     (if length data < 4 then (Corruption, 0, data)
      else (OK, declared_length data, drop 4 data))"
  by (simp add: CQLDecodeLength_def CQLDecodeNum_def declared_length_def Load32_def)

lemma decode_elem_status:
  assumes "\<And>this d. fst (des this d) = OK \<or> fst (des this d) = Corruption"
  shows "fst (decode_elem des data) = OK \<or> fst (decode_elem des data) = Corruption"
proof -
  obtain s x u where
    d: "des PB_not_set (take (nat (declared_length data)) (drop 4 data)) = (s, x, u)"
    by (cases "des PB_not_set (take (nat (declared_length data)) (drop 4 data))")
  from assms [of PB_not_set "take (nat (declared_length data)) (drop 4 data)"] d
  have "s = OK \<or> s = Corruption" by simp
  then show ?thesis
    by (auto simp: decode_elem_def CQLDecodeLength_eq d)
qed

lemma decode_elem_cursor:
  "fst (decode_elem des data) = OK \<Longrightarrow> snd (snd (decode_elem des data)) = after_elem data"
  by (cases "des PB_not_set (take (nat (declared_length data)) (drop 4 data))")
    (auto simp: decode_elem_def CQLDecodeLength_eq after_elem_def split: if_splits)

lemma decode_elem_overrun:
  assumes "\<And>this d. nested d \<Longrightarrow> fst (des this d) = Corruption"
    and "overrun_elem nested data"
  shows "fst (decode_elem des data) = Corruption"
proof -
  obtain s x u where
    d: "des PB_not_set (take (nat (declared_length data)) (drop 4 data)) = (s, x, u)"
    by (cases "des PB_not_set (take (nat (declared_length data)) (drop 4 data))")
  from assms(1) [of "take (nat (declared_length data)) (drop 4 data)" PB_not_set] d
  have "nested (take (nat (declared_length data)) (drop 4 data)) \<Longrightarrow> s = Corruption"
    by simp
  with assms(2) show ?thesis
    by (auto simp: decode_elem_def CQLDecodeLength_eq d overrun_elem_def)
qed

lemma decode_elems_status:
  assumes "\<And>d. fst (dec d) = OK \<or> fst (dec d) = Corruption"
  shows "fst (decode_elems dec n data) = OK \<or> fst (decode_elems dec n data) = Corruption"
proof (induction n arbitrary: data)
  case 0
  show ?case by simp
next
  case (Suc n)
  obtain s x d1 where e: "dec data = (s, x, d1)" by (cases "dec data")
  obtain s' xs d2 where r: "decode_elems dec n d1 = (s', xs, d2)"
    by (cases "decode_elems dec n d1")
  from assms [of data] e have "s = OK \<or> s = Corruption" by simp
  moreover from Suc.IH [of d1] r have "s' = OK \<or> s' = Corruption" by simp
  ultimately show ?case by (auto simp: e r)
qed

lemma decode_pairs_status:
  assumes "\<And>d. fst (deck d) = OK \<or> fst (deck d) = Corruption"
    and "\<And>d. fst (decv d) = OK \<or> fst (decv d) = Corruption"
  shows "fst (decode_pairs deck decv n data) = OK \<or>
    fst (decode_pairs deck decv n data) = Corruption"
proof (induction n arbitrary: data)
  case 0
  show ?case by simp
next
  case (Suc n)
  obtain s k d1 where e: "deck data = (s, k, d1)" by (cases "deck data")
  obtain s' x d2 where f: "decv d1 = (s', x, d2)" by (cases "decv d1")
  obtain s'' m d3 where r: "decode_pairs deck decv n d2 = (s'', m, d3)"
    by (cases "decode_pairs deck decv n d2")
  from assms(1) [of data] e have "s = OK \<or> s = Corruption" by simp
  moreover from assms(2) [of d1] f have "s' = OK \<or> s' = Corruption" by simp
  moreover from Suc.IH [of d2] r have "s'' = OK \<or> s'' = Corruption" by simp
  ultimately show ?case by (auto simp: e f r)
qed

lemma decode_elems_overrun:
  assumes st: "\<And>d. fst (dec d) = OK \<or> fst (dec d) = Corruption"
    and cur: "\<And>d. fst (dec d) = OK \<Longrightarrow> snd (snd (dec d)) = after_elem d"
    and ovr: "\<And>d. overrun_elem nested d \<Longrightarrow> fst (dec d) = Corruption"
    and o: "overrun_elems nested n data"
  shows "fst (decode_elems dec n data) = Corruption"
  using o
proof (induction n arbitrary: data)
  case 0
  then show ?case by simp
next
  case (Suc n)
  obtain s x d1 where e: "dec data = (s, x, d1)" by (cases "dec data")
  obtain s' xs d2 where r: "decode_elems dec n d1 = (s', xs, d2)"
    by (cases "decode_elems dec n d1")
  from st [of data] e have s: "s = OK \<or> s = Corruption" by simp
  show ?case
  proof (cases "s = OK")
    case False
    with s show ?thesis by (simp add: e)
  next
    case True
    with e cur [of data] have d1: "d1 = after_elem data" by simp
    from True e ovr [of data] have "\<not> overrun_elem nested data" by auto
    with Suc.prems have "overrun_elems nested n (after_elem data)" by simp
    from Suc.IH [OF this] r d1 have "s' = Corruption" by simp
    then show ?thesis by (simp add: e r True)
  qed
qed

lemma decode_pairs_overrun:
  assumes stk: "\<And>d. fst (deck d) = OK \<or> fst (deck d) = Corruption"
    and stv: "\<And>d. fst (decv d) = OK \<or> fst (decv d) = Corruption"
    and curk: "\<And>d. fst (deck d) = OK \<Longrightarrow> snd (snd (deck d)) = after_elem d"
    and curv: "\<And>d. fst (decv d) = OK \<Longrightarrow> snd (snd (decv d)) = after_elem d"
    and ovrk: "\<And>d. overrun_elem nestedk d \<Longrightarrow> fst (deck d) = Corruption"
    and ovrv: "\<And>d. overrun_elem nestedv d \<Longrightarrow> fst (decv d) = Corruption"
    and o: "overrun_pairs nestedk nestedv n data"
  shows "fst (decode_pairs deck decv n data) = Corruption"
  using o
proof (induction n arbitrary: data)
  case 0
  then show ?case by simp
next
  case (Suc n)
  obtain s k d1 where e: "deck data = (s, k, d1)" by (cases "deck data")
  obtain s' x d2 where f: "decv d1 = (s', x, d2)" by (cases "decv d1")
  obtain s'' m d3 where r: "decode_pairs deck decv n d2 = (s'', m, d3)"
    by (cases "decode_pairs deck decv n d2")
  from stk [of data] e have s: "s = OK \<or> s = Corruption" by simp
  from stv [of d1] f have s': "s' = OK \<or> s' = Corruption" by simp
  show ?case
  proof (cases "s = OK")
    case False
    with s show ?thesis by (simp add: e)
  next
    case True
    with e curk [of data] have d1: "d1 = after_elem data" by simp
    from True e ovrk [of data] have nk: "\<not> overrun_elem nestedk data" by auto
    show ?thesis
    proof (cases "s' = OK")
      case False
      with s' show ?thesis by (simp add: e f True)
    next
      case ok: True
      with f curv [of d1] have d2: "d2 = after_elem (after_elem data)" by (simp add: d1)
      from ok f ovrv [of d1] have "\<not> overrun_elem nestedv (after_elem data)"
        by (auto simp: d1)
      with nk Suc.prems have "overrun_pairs nestedk nestedv n (after_elem (after_elem data))"
        by simp
      from Suc.IH [OF this] r d2 have "s'' = Corruption" by simp
      then show ?thesis by (simp add: e f r True ok)
    qed
  qed
qed

lemma DeserializeBytes_status:
  "fst (DeserializeBytes valid setter this data) = OK \<or>
   fst (DeserializeBytes valid setter this data) = Corruption"
  by (simp add: DeserializeBytes_def CQLDecodeLength_eq)

lemma Deserialize_status:
  "fst (Deserialize ty client this data) = OK \<or>
   fst (Deserialize ty client this data) = Corruption"
proof (induction ty arbitrary: this data)
  case (MAP kt vt)
  have k: "\<And>d. fst (decode_elem (Deserialize kt client) d) = OK \<or>
      fst (decode_elem (Deserialize kt client) d) = Corruption"
    by (rule decode_elem_status) (rule MAP.IH(1))
  have v: "\<And>d. fst (decode_elem (Deserialize vt client) d) = OK \<or>
      fst (decode_elem (Deserialize vt client) d) = Corruption"
    by (rule decode_elem_status) (rule MAP.IH(2))
  obtain s m d2 where r: "decode_pairs (decode_elem (Deserialize kt client))
      (decode_elem (Deserialize vt client)) (nat (declared_length data)) (drop 4 data) = (s, m, d2)"
    by (cases "decode_pairs (decode_elem (Deserialize kt client))
      (decode_elem (Deserialize vt client)) (nat (declared_length data)) (drop 4 data)")
  from decode_pairs_status [of "decode_elem (Deserialize kt client)"
      "decode_elem (Deserialize vt client)" "nat (declared_length data)" "drop 4 data", OF k v] r
  have "s = OK \<or> s = Corruption" by simp
  then show ?case by (auto simp: DeserializeMap_def CQLDecodeLength_eq r)
next
  case (SET et)
  have e: "\<And>d. fst (decode_elem (Deserialize et client) d) = OK \<or>
      fst (decode_elem (Deserialize et client) d) = Corruption"
    by (rule decode_elem_status) (rule SET.IH)
  obtain s xs d2 where r: "decode_elems (decode_elem (Deserialize et client))
      (nat (declared_length data)) (drop 4 data) = (s, xs, d2)"
    by (cases "decode_elems (decode_elem (Deserialize et client))
      (nat (declared_length data)) (drop 4 data)")
  from decode_elems_status [of "decode_elem (Deserialize et client)"
      "nat (declared_length data)" "drop 4 data", OF e] r
  have "s = OK \<or> s = Corruption" by simp
  then show ?case by (auto simp: DeserializeSeq_def CQLDecodeLength_eq r)
next
  case (LIST et)
  have e: "\<And>d. fst (decode_elem (Deserialize et client) d) = OK \<or>
      fst (decode_elem (Deserialize et client) d) = Corruption"
    by (rule decode_elem_status) (rule LIST.IH)
  obtain s xs d2 where r: "decode_elems (decode_elem (Deserialize et client))
      (nat (declared_length data)) (drop 4 data) = (s, xs, d2)"
    by (cases "decode_elems (decode_elem (Deserialize et client))
      (nat (declared_length data)) (drop 4 data)")
  from decode_elems_status [of "decode_elem (Deserialize et client)"
      "nat (declared_length data)" "drop 4 data", OF e] r
  have "s = OK \<or> s = Corruption" by simp
  then show ?case by (auto simp: DeserializeSeq_def CQLDecodeLength_eq r)
qed (simp_all add: CQLDeserializeNum_def CQLDeserializeFloat_def CQLDecodeNum_def
    DeserializeBytes_status DeserializeFixedBytes_def)

lemma DeserializeBytes_overrun:
  "overrun_elem (\<lambda>slice. False) data \<Longrightarrow>
     fst (DeserializeBytes valid setter this data) = Corruption"
  by (auto simp: DeserializeBytes_def CQLDecodeLength_eq overrun_elem_def)

lemma Deserialize_overrun:
  "overrun ty data \<Longrightarrow> fst (Deserialize ty client this data) = Corruption"
proof (induction ty arbitrary: this data)
  case (MAP kt vt)
  note stk = decode_elem_status [of "Deserialize kt client", OF Deserialize_status]
  note stv = decode_elem_status [of "Deserialize vt client", OF Deserialize_status]
  have ok: "\<And>d. overrun_elem (overrun kt) d \<Longrightarrow>
      fst (decode_elem (Deserialize kt client) d) = Corruption"
    by (rule decode_elem_overrun [of "overrun kt"]) (rule MAP.IH(1))
  have ov: "\<And>d. overrun_elem (overrun vt) d \<Longrightarrow>
      fst (decode_elem (Deserialize vt client) d) = Corruption"
    by (rule decode_elem_overrun [of "overrun vt"]) (rule MAP.IH(2))
  show ?case
  proof (cases "length data < 4")
    case True
    then show ?thesis by (simp add: DeserializeMap_def CQLDecodeLength_eq)
  next
    case False
    with MAP.prems have n: "0 \<le> declared_length data"
      and o: "overrun_pairs (overrun kt) (overrun vt) (nat (declared_length data)) (drop 4 data)"
      by (simp_all add: overrun_count_def)
    obtain s m d2 where r: "decode_pairs (decode_elem (Deserialize kt client))
        (decode_elem (Deserialize vt client)) (nat (declared_length data)) (drop 4 data) =
        (s, m, d2)"
      by (cases "decode_pairs (decode_elem (Deserialize kt client))
        (decode_elem (Deserialize vt client)) (nat (declared_length data)) (drop 4 data)")
    from decode_pairs_overrun [of "decode_elem (Deserialize kt client)"
        "decode_elem (Deserialize vt client)" "overrun kt" "overrun vt"
        "nat (declared_length data)" "drop 4 data",
        OF stk stv decode_elem_cursor decode_elem_cursor ok ov o] r
    have "s = Corruption" by simp
    with False n show ?thesis by (simp add: DeserializeMap_def CQLDecodeLength_eq r)
  qed
next
  case (SET et)
  note st = decode_elem_status [of "Deserialize et client", OF Deserialize_status]
  have oe: "\<And>d. overrun_elem (overrun et) d \<Longrightarrow>
      fst (decode_elem (Deserialize et client) d) = Corruption"
    by (rule decode_elem_overrun [of "overrun et"]) (rule SET.IH)
  show ?case
  proof (cases "length data < 4")
    case True
    then show ?thesis by (simp add: DeserializeSeq_def CQLDecodeLength_eq)
  next
    case False
    with SET.prems have n: "0 \<le> declared_length data"
      and o: "overrun_elems (overrun et) (nat (declared_length data)) (drop 4 data)"
      by (simp_all add: overrun_count_def)
    obtain s xs d2 where r: "decode_elems (decode_elem (Deserialize et client))
        (nat (declared_length data)) (drop 4 data) = (s, xs, d2)"
      by (cases "decode_elems (decode_elem (Deserialize et client))
        (nat (declared_length data)) (drop 4 data)")
    from decode_elems_overrun [of "decode_elem (Deserialize et client)" "overrun et"
        "nat (declared_length data)" "drop 4 data", OF st decode_elem_cursor oe o] r
    have "s = Corruption" by simp
    with False n show ?thesis by (simp add: DeserializeSeq_def CQLDecodeLength_eq r)
  qed
next
  case (LIST et)
  note st = decode_elem_status [of "Deserialize et client", OF Deserialize_status]
  have oe: "\<And>d. overrun_elem (overrun et) d \<Longrightarrow>
      fst (decode_elem (Deserialize et client) d) = Corruption"
    by (rule decode_elem_overrun [of "overrun et"]) (rule LIST.IH)
  show ?case
  proof (cases "length data < 4")
    case True
    then show ?thesis by (simp add: DeserializeSeq_def CQLDecodeLength_eq)
  next
    case False
    with LIST.prems have n: "0 \<le> declared_length data"
      and o: "overrun_elems (overrun et) (nat (declared_length data)) (drop 4 data)"
      by (simp_all add: overrun_count_def)
    obtain s xs d2 where r: "decode_elems (decode_elem (Deserialize et client))
        (nat (declared_length data)) (drop 4 data) = (s, xs, d2)"
      by (cases "decode_elems (decode_elem (Deserialize et client))
        (nat (declared_length data)) (drop 4 data)")
    from decode_elems_overrun [of "decode_elem (Deserialize et client)" "overrun et"
        "nat (declared_length data)" "drop 4 data", OF st decode_elem_cursor oe o] r
    have "s = Corruption" by simp
    with False n show ?thesis by (simp add: DeserializeSeq_def CQLDecodeLength_eq r)
  qed
qed (simp_all add: CQLDeserializeNum_def CQLDeserializeFloat_def CQLDecodeNum_def
    DeserializeBytes_overrun DeserializeFixedBytes_def)

lemma overrun_elems_numeral:
  "overrun_elems nested (numeral k) data =
     (overrun_elem nested data \<or> overrun_elems nested (pred_numeral k) (after_elem data))"
  by (metis overrun_elems.simps(2) numeral_eq_Suc)

lemma overrun_pairs_numeral:
  "overrun_pairs nestedk nestedv (numeral k) data =
     (overrun_elem nestedk data \<or> overrun_elem nestedv (after_elem data) \<or>
      overrun_pairs nestedk nestedv (pred_numeral k) (after_elem (after_elem data)))"
  by (metis overrun_pairs.simps(2) numeral_eq_Suc)

lemmas overrun_eval = overrun_count_def overrun_elem_def after_elem_def declared_length_def
  Load32_def be_decode_def overrun_elems_numeral overrun_pairs_numeral

text \<open>
  C5. The numeric decode helper \<open>CQLDeserializeNum\<close>, given a byte length \<open>len\<close> and a
  converter, fails with \<open>Corruption\<close> (the record untouched) when fewer than \<open>len\<close>
  bytes remain, and otherwise reads exactly \<open>len\<close> bytes: it stores the converted number
  and moves the cursor by \<open>len\<close>. For every logical type and every input cursor,
  \<open>Deserialize\<close> fails with \<open>Corruption\<close> whenever the remaining bytes are fewer than
  a declared length of the value being decoded (\<open>overrun\<close>): the width of a fixed-width
  type, the 4 bytes of a length prefix or count, the length that a prefix declares, for
  the value itself and for any element of a collection, a map's keys and values and
  nested values included. The first cases are spelled out with the record and the cursor
  after the call.
\<close>

theorem truncated_input_is_Corruption:
  "(length data < len \<longrightarrow>
      CQLDeserializeNum len converter setter this data = (Corruption, this, data)) \<and>
   (len \<le> length data \<longrightarrow>
      CQLDeserializeNum len converter setter this data =
        (OK, setter (ucast (converter (take len data))) this, drop len data)) \<and>
   (fixed_width ty = Some w \<and> length data < w \<longrightarrow>
      Deserialize ty client this data = (Corruption, this, data)) \<and>
   (fixed_width ty = None \<and> length data < 4 \<longrightarrow>
      Deserialize ty client this data = (Corruption, this, data)) \<and>
   (length_prefixed ty \<and> 0 \<le> n \<and> n < 2 ^ 31 \<and> length rest < nat n \<longrightarrow>
      Deserialize ty client this (CQLEncodeLength n @ rest) = (Corruption, this, rest)) \<and>
   (is_collection ty \<and> 0 < n \<and> n < 2 ^ 31 \<and> 0 \<le> m \<and> m < 2 ^ 31 \<and> length rest < nat m \<longrightarrow>
      Deserialize ty client this (CQLEncodeLength n @ CQLEncodeLength m @ rest) =
        (Corruption, this, rest)) \<and>
   (overrun ty data \<longrightarrow> fst (Deserialize ty client this data) = Corruption)"
  by (intro conjI impI)
    (simp_all add: CQLDeserializeNum_short CQLDeserializeNum_enough Deserialize_fixed_short
      Deserialize_prefix_short Deserialize_bytes_short Deserialize_element_short
      Deserialize_overrun)

theorem truncated_input_is_Corruption_witness:
  "length [0x00, 0x2A :: 8 word] < 4 \<and>
   CQLDeserializeNum 4 Load32 set_int32_value (PB_bool True) [0x00, 0x2A] =
     (Corruption, PB_bool True, [0x00, 0x2A]) \<and>
   (4 :: nat) \<le> length [0x00, 0x00, 0x00, 0x2A, 0x07 :: 8 word] \<and>
   CQLDeserializeNum 4 Load32 set_int32_value (PB_bool True) [0x00, 0x00, 0x00, 0x2A, 0x07] =
     (OK, PB_int32 42, [0x07]) \<and>
   fixed_width INT64 = Some 8 \<and>
   Deserialize INT64 () (PB_bool True) [0x00, 0x2A] = (Corruption, PB_bool True, [0x00, 0x2A]) \<and>
   fixed_width STRING = None \<and>
   Deserialize STRING () (PB_bool True) [0x00, 0x2A] = (Corruption, PB_bool True, [0x00, 0x2A]) \<and>
   length_prefixed STRING \<and>
   Deserialize STRING () (PB_bool True) (CQLEncodeLength 3 @ [0x61, 0x62]) =
     (Corruption, PB_bool True, [0x61, 0x62]) \<and>
   is_collection (LIST INT32) \<and>
   Deserialize (LIST INT32) () (PB_bool True) (CQLEncodeLength 2 @ CQLEncodeLength 4 @ [0x00, 0x00]) =
     (Corruption, PB_bool True, [0x00, 0x00]) \<and>
   overrun (LIST INT32)
     [0x00, 0x00, 0x00, 0x02, 0x00, 0x00, 0x00, 0x04, 0x00, 0x00, 0x00, 0x01,
      0x00, 0x00, 0x00, 0x04, 0x00, 0x00] \<and>
   fst (Deserialize (LIST INT32) () (PB_bool True)
     [0x00, 0x00, 0x00, 0x02, 0x00, 0x00, 0x00, 0x04, 0x00, 0x00, 0x00, 0x01,
      0x00, 0x00, 0x00, 0x04, 0x00, 0x00]) = Corruption \<and>
   overrun (MAP INT32 INT32)
     [0x00, 0x00, 0x00, 0x01, 0x00, 0x00, 0x00, 0x04, 0x00, 0x00, 0x00, 0x01,
      0x00, 0x00, 0x00, 0x04, 0x00] \<and>
   fst (Deserialize (MAP INT32 INT32) () (PB_bool True)
     [0x00, 0x00, 0x00, 0x01, 0x00, 0x00, 0x00, 0x04, 0x00, 0x00, 0x00, 0x01,
      0x00, 0x00, 0x00, 0x04, 0x00]) = Corruption \<and>
   overrun (LIST INT32) [0x00, 0x00, 0x00, 0x01, 0x00, 0x00] \<and>
   fst (Deserialize (LIST INT32) () (PB_bool True) [0x00, 0x00, 0x00, 0x01, 0x00, 0x00]) =
     Corruption \<and>
   overrun (LIST STRING)
     [0x00, 0x00, 0x00, 0x01, 0x00, 0x00, 0x00, 0x06, 0x00, 0x00, 0x00, 0x09, 0x61, 0x62] \<and>
   fst (Deserialize (LIST STRING) () (PB_bool True)
     [0x00, 0x00, 0x00, 0x01, 0x00, 0x00, 0x00, 0x06, 0x00, 0x00, 0x00, 0x09, 0x61, 0x62]) =
     Corruption"
proof -
  have a: "length [0x00, 0x2A :: 8 word] < 4" by simp
  have b: "(4 :: nat) \<le> length [0x00, 0x00, 0x00, 0x2A, 0x07 :: 8 word]" by simp
  have c: "fixed_width INT64 = Some 8 \<and> length [0x00, 0x2A :: 8 word] < 8" by simp
  have d: "fixed_width STRING = None \<and> length [0x00, 0x2A :: 8 word] < 4" by simp
  have e: "length_prefixed STRING \<and> (0 :: int) \<le> 3 \<and> (3 :: int) < 2 ^ 31 \<and>
      length [0x61, 0x62 :: 8 word] < nat 3"
    by simp
  have f: "is_collection (LIST INT32) \<and> (0 :: int) < 2 \<and> (2 :: int) < 2 ^ 31 \<and>
      (0 :: int) \<le> 4 \<and> (4 :: int) < 2 ^ 31 \<and> length [0x00, 0x00 :: 8 word] < nat 4"
    by simp
  have g1: "overrun (LIST INT32)
     [0x00, 0x00, 0x00, 0x02, 0x00, 0x00, 0x00, 0x04, 0x00, 0x00, 0x00, 0x01,
      0x00, 0x00, 0x00, 0x04, 0x00, 0x00]"
    by (simp add: overrun_eval)
  have g2: "overrun (MAP INT32 INT32)
     [0x00, 0x00, 0x00, 0x01, 0x00, 0x00, 0x00, 0x04, 0x00, 0x00, 0x00, 0x01,
      0x00, 0x00, 0x00, 0x04, 0x00]"
    by (simp add: overrun_eval)
  have g3: "overrun (LIST INT32) [0x00, 0x00, 0x00, 0x01, 0x00, 0x00]"
    by (simp add: overrun_eval)
  have g4: "overrun (LIST STRING)
     [0x00, 0x00, 0x00, 0x01, 0x00, 0x00, 0x00, 0x06, 0x00, 0x00, 0x00, 0x09, 0x61, 0x62]"
    by (simp add: overrun_eval)
  have l: "ucast (Load32 (take 4 [0x00, 0x00, 0x00, 0x2A, 0x07])) = (42 :: 32 word)"
    by (simp add: Load32_def be_decode_def)
  note t1 = truncated_input_is_Corruption [where data = "[0x00, 0x2A]" and len = 4
      and converter = Load32 and setter = set_int32_value and this = "PB_bool True"
      and ty = INT64 and w = 8 and client = "()", THEN conjunct1, rule_format, OF a]
  note t2 = truncated_input_is_Corruption [where data = "[0x00, 0x00, 0x00, 0x2A, 0x07]"
      and len = 4 and converter = Load32 and setter = set_int32_value
      and this = "PB_bool True", THEN conjunct2, THEN conjunct1, rule_format, OF b]
  note t3 = truncated_input_is_Corruption [where data = "[0x00, 0x2A]" and ty = INT64
      and w = 8 and client = "()" and this = "PB_bool True",
      THEN conjunct2, THEN conjunct2, THEN conjunct1, rule_format, OF c]
  note t4 = truncated_input_is_Corruption [where data = "[0x00, 0x2A]" and ty = STRING
      and client = "()" and this = "PB_bool True",
      THEN conjunct2, THEN conjunct2, THEN conjunct2, THEN conjunct1, rule_format, OF d]
  note t5 = truncated_input_is_Corruption [where ty = STRING and n = 3
      and rest = "[0x61, 0x62]" and client = "()" and this = "PB_bool True",
      THEN conjunct2, THEN conjunct2, THEN conjunct2, THEN conjunct2, THEN conjunct1,
      rule_format, OF e]
  note t6 = truncated_input_is_Corruption [where ty = "LIST INT32" and n = 2 and m = 4
      and rest = "[0x00, 0x00]" and client = "()" and this = "PB_bool True",
      THEN conjunct2, THEN conjunct2, THEN conjunct2, THEN conjunct2, THEN conjunct2,
      THEN conjunct1, rule_format, OF f]
  note t7 = truncated_input_is_Corruption [where client = "()" and this = "PB_bool True",
      THEN conjunct2, THEN conjunct2, THEN conjunct2, THEN conjunct2, THEN conjunct2,
      THEN conjunct2, rule_format]
  note u1 = t7 [OF g1] and u2 = t7 [OF g2] and u3 = t7 [OF g3] and u4 = t7 [OF g4]
  from t2 have t2': "CQLDeserializeNum 4 Load32 set_int32_value (PB_bool True)
      [0x00, 0x00, 0x00, 0x2A, 0x07] = (OK, PB_int32 42, [0x07])"
    unfolding l by (simp add: set_int32_value_def)
  from a b c d e f t1 t2' t3 t4 t5 t6 have first:
    "length [0x00, 0x2A :: 8 word] < 4 \<and>
     CQLDeserializeNum 4 Load32 set_int32_value (PB_bool True) [0x00, 0x2A] =
       (Corruption, PB_bool True, [0x00, 0x2A]) \<and>
     (4 :: nat) \<le> length [0x00, 0x00, 0x00, 0x2A, 0x07 :: 8 word] \<and>
     CQLDeserializeNum 4 Load32 set_int32_value (PB_bool True) [0x00, 0x00, 0x00, 0x2A, 0x07] =
       (OK, PB_int32 42, [0x07]) \<and>
     fixed_width INT64 = Some 8 \<and>
     Deserialize INT64 () (PB_bool True) [0x00, 0x2A] = (Corruption, PB_bool True, [0x00, 0x2A]) \<and>
     fixed_width STRING = None \<and>
     Deserialize STRING () (PB_bool True) [0x00, 0x2A] = (Corruption, PB_bool True, [0x00, 0x2A]) \<and>
     length_prefixed STRING \<and>
     Deserialize STRING () (PB_bool True) (CQLEncodeLength 3 @ [0x61, 0x62]) =
       (Corruption, PB_bool True, [0x61, 0x62]) \<and>
     is_collection (LIST INT32) \<and>
     Deserialize (LIST INT32) () (PB_bool True)
       (CQLEncodeLength 2 @ CQLEncodeLength 4 @ [0x00, 0x00]) =
       (Corruption, PB_bool True, [0x00, 0x00])"
    by simp
  from first g1 u1 g2 u2 g3 u3 g4 u4 show ?thesis by blast
qed

end
